theory Spec2Isabelle
  imports Complex_Main
begin

section \<open>JavaScript values used by the price feed\<close>

text \<open>
  A JavaScript number is a finite value, one of the two infinities, or NaN. Finite values
  are taken as exact reals: binary rounding, overflow and the sign of zero are left out
  of the model.
\<close>

datatype jsnum = Fin real | PInf | NInf | NaN

fun js_isNaN :: "jsnum \<Rightarrow> bool" where
  "js_isNaN NaN = True"
| "js_isNaN _ = False"

fun js_isFinite :: "jsnum \<Rightarrow> bool" where
  "js_isFinite (Fin _) = True"
| "js_isFinite _ = False"

text \<open>The comparisons \<open><=\<close> and \<open>>\<close> of JavaScript: every comparison with NaN is false.\<close>

fun js_le :: "jsnum \<Rightarrow> jsnum \<Rightarrow> bool" where
  "js_le NaN _ = False"
| "js_le _ NaN = False"
| "js_le NInf _ = True"
| "js_le _ PInf = True"
| "js_le (Fin a) (Fin b) = (a \<le> b)"
| "js_le _ _ = False"

fun js_gt :: "jsnum \<Rightarrow> jsnum \<Rightarrow> bool" where
  "js_gt NaN _ = False"
| "js_gt _ NaN = False"
| "js_gt (Fin a) (Fin b) = (a > b)"
| "js_gt PInf PInf = False"
| "js_gt PInf _ = True"
| "js_gt (Fin a) NInf = True"
| "js_gt _ _ = False"

text \<open>Strict equality \<open>===\<close> on numbers: NaN is equal to nothing, itself included.\<close>

fun js_eq :: "jsnum \<Rightarrow> jsnum \<Rightarrow> bool" where
  "js_eq NaN _ = False"
| "js_eq _ NaN = False"
| "js_eq a b = (a = b)"

text \<open>
  The values of type \<open>unknown\<close> that reach the validator: a field of a decoded JSON body
  is absent (\<open>null\<close> or \<open>undefined\<close>), a string, a number, a boolean, or an array or
  object. Of an array or object the model keeps what \<open>String\<close> and \<open>Number\<close> make of it.
\<close>

datatype jsval =
    JNull | JUndefined | JString string | JNumber jsnum | JBool bool | JObject string jsnum

text \<open>An \<open>Error\<close> object: the name of its constructor and its message.\<close>

record js_error =
  ctor_name :: string
  err_message :: string

section \<open>The typed errors of the price domain\<close>

datatype PriceErrorCode =
    NETWORK_TIMEOUT | NETWORK_CONNECTION_FAILED | NETWORK_UNREACHABLE
  | API_RATE_LIMITED | API_UNAUTHORIZED | API_NOT_FOUND | API_SERVER_ERROR
  | API_INVALID_RESPONSE
  | INVALID_PRICE_DATA | PRICE_OUT_OF_RANGE | MISSING_PRICE_FIELD

datatype ErrorSeverity = LOW | MEDIUM | HIGH | CRITICAL

datatype error_class = PriceNetworkError | PriceAPIError | PriceValidationError

text \<open>
  One record for the three subclasses of \<open>PriceDomainError\<close>: the class, the code, the
  message, the context (operation, exchange name, severity, and the optional HTTP status,
  retry-after seconds and offending data) and the wrapped cause.
\<close>

record price_error =
  cls :: error_class
  code :: PriceErrorCode
  message :: string
  ctx_operation :: string
  ctx_exchangeName :: string
  ctx_severity :: ErrorSeverity
  httpStatus :: "nat option"
  retryAfter :: "nat option"
  invalidData :: "jsval option"
  cause :: "js_error option"

definition new_PriceNetworkError ::
  "string \<Rightarrow> PriceErrorCode \<Rightarrow> string \<Rightarrow> string \<Rightarrow> js_error option \<Rightarrow> price_error" where
  "new_PriceNetworkError msg c opn ex cs =
     \<lparr>cls = PriceNetworkError, code = c, message = msg, ctx_operation = opn, ctx_exchangeName = ex,
      ctx_severity = HIGH, httpStatus = None, retryAfter = None, invalidData = None, cause = cs\<rparr>"

definition new_PriceAPIError ::
  "string \<Rightarrow> PriceErrorCode \<Rightarrow> string \<Rightarrow> string \<Rightarrow> nat option \<Rightarrow> nat option \<Rightarrow>
     js_error option \<Rightarrow> price_error" where
  "new_PriceAPIError msg c opn ex hs ra cs =
     \<lparr>cls = PriceAPIError, code = c, message = msg, ctx_operation = opn, ctx_exchangeName = ex,
      ctx_severity = (if c = API_RATE_LIMITED then MEDIUM else HIGH),
      httpStatus = hs, retryAfter = ra, invalidData = None, cause = cs\<rparr>"

definition new_PriceValidationError ::
  "string \<Rightarrow> PriceErrorCode \<Rightarrow> string \<Rightarrow> string \<Rightarrow> jsval option \<Rightarrow> price_error" where
  "new_PriceValidationError msg c opn ex bad =
     \<lparr>cls = PriceValidationError, code = c, message = msg, ctx_operation = opn, ctx_exchangeName = ex,
      ctx_severity = MEDIUM, httpStatus = None, retryAfter = None, invalidData = bad,
      cause = None\<rparr>"

text \<open>The methods \<open>isRetryable\<close> and \<open>getRetryDelay\<close>, each class with its own body.\<close>

definition isRetryable :: "price_error \<Rightarrow> bool" where
  "isRetryable e =
     (case cls e of
        PriceNetworkError \<Rightarrow> code e \<noteq> NETWORK_UNREACHABLE
      | PriceAPIError \<Rightarrow> code e = API_RATE_LIMITED \<or> code e = API_SERVER_ERROR
      | PriceValidationError \<Rightarrow> code e = INVALID_PRICE_DATA)"

definition getRetryDelay :: "price_error \<Rightarrow> nat" where
  "getRetryDelay e =
     (case cls e of
        PriceNetworkError \<Rightarrow>
          1000 * (case code e of NETWORK_TIMEOUT \<Rightarrow> 2 | NETWORK_CONNECTION_FAILED \<Rightarrow> 3
                  | NETWORK_UNREACHABLE \<Rightarrow> 0 | _ \<Rightarrow> 1)
      | PriceAPIError \<Rightarrow>
          (if code e = API_RATE_LIMITED \<and> retryAfter e \<noteq> None \<and> retryAfter e \<noteq> Some 0
           then the (retryAfter e) * 1000
           else (case code e of API_RATE_LIMITED \<Rightarrow> 5000 | API_SERVER_ERROR \<Rightarrow> 3000 | _ \<Rightarrow> 0))
      | PriceValidationError \<Rightarrow> (if isRetryable e then 2000 else 0))"

section \<open>The price validator\<close>

text \<open>
  \<open>validatePriceData\<close>. The built-ins \<open>parseFloat\<close> and the conversion of a number to a
  string (used in the messages only) are parameters: \<open>pf\<close> and \<open>ts\<close>. A string goes
  through \<open>parseFloat\<close>, every other value through \<open>Number\<close>. A thrown
  \<open>PriceValidationError\<close> is the left summand.
\<close>

definition js_String :: "(jsnum \<Rightarrow> string) \<Rightarrow> jsval \<Rightarrow> string" where
  "js_String ts d =
     (case d of JNull \<Rightarrow> ''null'' | JUndefined \<Rightarrow> ''undefined'' | JString s \<Rightarrow> s
      | JNumber n \<Rightarrow> ts n | JBool b \<Rightarrow> (if b then ''true'' else ''false'')
      | JObject txt n \<Rightarrow> txt)"

definition js_Number :: "(string \<Rightarrow> jsnum) \<Rightarrow> jsval \<Rightarrow> jsnum" where
  "js_Number pf d =
     (case d of JString s \<Rightarrow> pf s | JNumber n \<Rightarrow> n | JNull \<Rightarrow> Fin 0 | JUndefined \<Rightarrow> NaN
      | JBool b \<Rightarrow> Fin (if b then 1 else 0) | JObject txt n \<Rightarrow> n)"

definition validatePriceData ::
  "(string \<Rightarrow> jsnum) \<Rightarrow> (jsnum \<Rightarrow> string) \<Rightarrow> jsval \<Rightarrow> string \<Rightarrow> string \<Rightarrow> price_error + jsnum" where
  "validatePriceData pf ts d symbol ex =
     (if d = JNull \<or> d = JUndefined then
        Inl (new_PriceValidationError (''Missing price data for '' @ symbol)
               MISSING_PRICE_FIELD ''price_validation'' ex None)
      else
        let price = js_Number pf d in
        if js_isNaN price \<or> \<not> js_isFinite price then
          Inl (new_PriceValidationError (''Invalid price value: '' @ js_String ts d)
                 INVALID_PRICE_DATA ''price_validation'' ex (Some d))
        else if js_le price (Fin 0) \<or> js_gt price (Fin 10000) then
          Inl (new_PriceValidationError (''Price out of valid range: $'' @ ts price)
                 PRICE_OUT_OF_RANGE ''price_validation'' ex (Some (JNumber price)))
        else Inr price)"

text \<open>\<open>isValidPrice\<close>: a number, greater than zero, and not NaN.\<close>

fun isValidPrice :: "jsval \<Rightarrow> bool" where
  "isValidPrice (JNumber p) = (js_gt p (Fin 0) \<and> \<not> js_isNaN p)"
| "isValidPrice _ = False"

section \<open>Strings and the two regular expressions of the classifier\<close>

text \<open>
  A string is a list of characters with codes below 256. \<open>js_includes\<close> is
  \<open>String.prototype.includes\<close>: the needle occurs somewhere in the text.
\<close>

fun startsWith :: "string \<Rightarrow> string \<Rightarrow> bool" where
  "startsWith _ [] = True"
| "startsWith [] (p # ps) = False"
| "startsWith (c # cs) (p # ps) = (c = p \<and> startsWith cs ps)"

fun js_includes :: "string \<Rightarrow> string \<Rightarrow> bool" where
  "js_includes [] needle = (needle = [])"
| "js_includes (c # cs) needle = (startsWith (c # cs) needle \<or> js_includes cs needle)"

definition is_digit :: "char \<Rightarrow> bool" where
  "is_digit c = (c \<in> set ''0123456789'')"

text \<open>The class \<open>\s\<close>: tab, line feed, vertical tab, form feed, carriage return, space, no-break space.\<close>

definition is_space :: "char \<Rightarrow> bool" where
  "is_space c = (c \<in> set [CHR 0x09, CHR 0x0A, CHR 0x0B, CHR 0x0C, CHR 0x0D, CHR '' '', CHR 0xA0])"

text \<open>The class \<open>[:\s]\<close>.\<close>

definition is_sep :: "char \<Rightarrow> bool" where
  "is_sep c = (c = CHR '':'' \<or> is_space c)"

text \<open>The dot of a regular expression matches every character but a line terminator.\<close>

definition is_line_terminator :: "char \<Rightarrow> bool" where
  "is_line_terminator c = (c = CHR 0x0A \<or> c = CHR 0x0D)"

definition ascii_lower :: "char \<Rightarrow> char" where
  "ascii_lower c =
     (if c \<in> set ''ABCDEFGHIJKLMNOPQRSTUVWXYZ'' then char_of (of_char c + (32::nat)) else c)"

text \<open>
  Matching a word of lower-case letters at the start of the text under the flag \<open>i\<close>;
  the result is the rest of the text. Only an ASCII letter matches an ASCII letter.
\<close>

fun ci_prefix :: "string \<Rightarrow> string \<Rightarrow> string option" where
  "ci_prefix [] s = Some s"
| "ci_prefix (p # ps) [] = None"
| "ci_prefix (p # ps) (c # cs) = (if ascii_lower c = p then ci_prefix ps cs else None)"

text \<open>
  \<open>C+\<close> for a character class \<open>C\<close>, followed by something that starts outside \<open>C\<close>: the
  longest run of \<open>C\<close>, at least one character long, is the only split that can succeed.
\<close>

definition run1 :: "(char \<Rightarrow> bool) \<Rightarrow> string \<Rightarrow> string option" where
  "run1 C s = (case s of [] \<Rightarrow> None | c # cs \<Rightarrow> if C c then Some (dropWhile C cs) else None)"

text \<open>
  \<open>parseInt(ds, 10)\<close> on a string of decimal digits, as an exact natural number (a
  JavaScript number is exact up to \<open>2 ^ 53\<close>).
\<close>

definition digit_val :: "char \<Rightarrow> nat" where
  "digit_val c = of_char c - 48"

definition parseInt10 :: "string \<Rightarrow> nat" where
  "parseInt10 ds = foldl (\<lambda>n c. 10 * n + digit_val c) 0 ds"

text \<open>\<open>\d{3}\<close> at the start of the text: the three digits and the rest.\<close>

fun three_digits :: "string \<Rightarrow> (string \<times> string) option" where
  "three_digits (a # b # c # rest) =
     (if is_digit a \<and> is_digit b \<and> is_digit c then Some ([a, b, c], rest) else None)"
| "three_digits _ = None"

text \<open>The leftmost match: the first position of the text at which the matcher succeeds.\<close>

fun first_match :: "(string \<Rightarrow> 'a option) \<Rightarrow> string \<Rightarrow> 'a option" where
  "first_match m [] = m []"
| "first_match m (c # cs) = (case m (c # cs) of Some r \<Rightarrow> Some r | None \<Rightarrow> first_match m cs)"

text \<open>\<open>/retry.after[:\s]+(\d+)/i\<close> at one position, and \<open>extractRetryAfter\<close>.\<close>

definition retry_after_at :: "string \<Rightarrow> nat option" where
  "retry_after_at s =
     (case ci_prefix ''retry'' s of None \<Rightarrow> None
      | Some s1 \<Rightarrow>
        (case s1 of [] \<Rightarrow> None
         | c # s2 \<Rightarrow>
           if is_line_terminator c then None
           else (case ci_prefix ''after'' s2 of None \<Rightarrow> None
                 | Some s3 \<Rightarrow>
                   (case run1 is_sep s3 of None \<Rightarrow> None
                    | Some s4 \<Rightarrow>
                      let ds = takeWhile is_digit s4
                      in if ds = [] then None else Some (parseInt10 ds)))))"

definition extractRetryAfter :: "string \<Rightarrow> nat option" where
  "extractRetryAfter msg = first_match retry_after_at msg"

text \<open>
  \<open>/HTTP\s+(\d{3})|status[:\s]+(\d{3})|(\d{3})\s+error/i\<close> at one position (the
  alternatives in their order), and \<open>extractHttpStatus\<close>.
\<close>

definition http_status_at :: "string \<Rightarrow> nat option" where
  "http_status_at s =
     (let alt1 = (case ci_prefix ''http'' s of None \<Rightarrow> None
                  | Some s1 \<Rightarrow> (case run1 is_space s1 of None \<Rightarrow> None
                                | Some s2 \<Rightarrow> map_option fst (three_digits s2)));
          alt2 = (case ci_prefix ''status'' s of None \<Rightarrow> None
                  | Some s1 \<Rightarrow> (case run1 is_sep s1 of None \<Rightarrow> None
                                | Some s2 \<Rightarrow> map_option fst (three_digits s2)));
          alt3 = (case three_digits s of None \<Rightarrow> None
                  | Some (ds, s1) \<Rightarrow> (case run1 is_space s1 of None \<Rightarrow> None
                                      | Some s2 \<Rightarrow> (case ci_prefix ''error'' s2 of None \<Rightarrow> None
                                                    | Some _ \<Rightarrow> Some ds)))
      in map_option parseInt10
           (case alt1 of Some ds \<Rightarrow> Some ds
            | None \<Rightarrow> (case alt2 of Some ds \<Rightarrow> Some ds | None \<Rightarrow> alt3)))"

definition extractHttpStatus :: "string \<Rightarrow> nat option" where
  "extractHttpStatus msg = first_match http_status_at msg"

section \<open>The error classifier\<close>

text \<open>
  A thrown value is an \<open>Error\<close> object or something else; of a value that is no
  \<open>Error\<close> the model keeps the name of its constructor (none for \<open>null\<close> and
  \<open>undefined\<close>) and its rendering by \<open>String\<close>.
\<close>

datatype js_thrown = ThrownError js_error | ThrownValue "string option" string

record classify_context =
  cc_operation :: string
  cc_exchangeName :: "string option"

definition createPriceError :: "string \<Rightarrow> js_error option \<Rightarrow> classify_context \<Rightarrow> price_error" where
  "createPriceError msg cs ctx =
     (let ex = (case cc_exchangeName ctx of None \<Rightarrow> ''Unknown''
                | Some n \<Rightarrow> if n = [] then ''Unknown'' else n);
          opn = cc_operation ctx
      in
      if js_includes msg ''timeout'' \<or> js_includes msg ''ETIMEDOUT'' then
        new_PriceNetworkError (''Network timeout for '' @ ex) NETWORK_TIMEOUT opn ex cs
      else if js_includes msg ''ECONNREFUSED''
              \<or> (js_includes msg ''connection'' \<and> js_includes msg ''failed'') then
        new_PriceNetworkError (''Connection failed to '' @ ex) NETWORK_CONNECTION_FAILED opn ex cs
      else if js_includes msg ''rate limit'' \<or> js_includes msg ''429'' then
        new_PriceAPIError (''Rate limit exceeded for '' @ ex) API_RATE_LIMITED opn ex
          (Some 429) (extractRetryAfter msg) cs
      else
        let fallback = new_PriceAPIError (''Invalid response from '' @ ex @ '': '' @ msg)
                         API_INVALID_RESPONSE opn ex None None cs
        in (case extractHttpStatus msg of
              None \<Rightarrow> fallback
            | Some st \<Rightarrow>
                if st \<noteq> 0 then
                  (if st \<ge> 500 then
                     new_PriceAPIError (''Server error from '' @ ex @ '': '' @ msg)
                       API_SERVER_ERROR opn ex (Some st) None cs
                   else if st = 404 then
                     new_PriceAPIError (''Resource not found on '' @ ex) API_NOT_FOUND
                       opn ex (Some st) None cs
                   else if st = 401 \<or> st = 403 then
                     new_PriceAPIError (''Unauthorized access to '' @ ex) API_UNAUTHORIZED
                       opn ex (Some st) None cs
                   else fallback)
                else fallback))"

definition createTypedError :: "js_thrown \<Rightarrow> classify_context \<Rightarrow> price_error" where
  "createTypedError thrown ctx =
     (case thrown of
        ThrownError e \<Rightarrow> createPriceError (err_message e) (Some e) ctx
      | ThrownValue _ txt \<Rightarrow> createPriceError txt None ctx)"

section \<open>The retry helper of a provider\<close>

text \<open>
  A provider: its name, its retry budget and base delay (3 and 1000 unless configured),
  and the outcome of its \<open>getHivePrice\<close>, which depends on the world and is given per call:
  the call either throws or returns a number.
\<close>

record PriceProvider =
  exchangeName :: string
  retryAttempts :: nat
  retryDelay :: nat
  getHivePrice :: "nat \<Rightarrow> js_thrown + jsnum"

datatype retry_event = Fetch nat | Backoff nat

text \<open>
  \<open>fetchWithRetry\<close>: the \<open>for\<close> loop from the attempt \<open>attempt\<close> on, with the last error
  seen so far. \<open>fetchFn k\<close> is what the \<open>k\<close>-th call of the fetch function does: it throws an
  \<open>Error\<close> (left) or returns (right). The second component lists the calls made and the
  sleeps taken, in order.
\<close>

function fetchWithRetry_from ::
  "PriceProvider \<Rightarrow> (nat \<Rightarrow> js_error + 'a) \<Rightarrow> nat \<Rightarrow> js_error option \<Rightarrow>
     (js_error + 'a) \<times> retry_event list" where
  "fetchWithRetry_from p fetchFn attempt lastError =
     (if attempt \<le> retryAttempts p then
        (case fetchFn attempt of
           Inr v \<Rightarrow> (Inr v, [Fetch attempt])
         | Inl e \<Rightarrow>
             let rest = fetchWithRetry_from p fetchFn (attempt + 1) (Some e)
             in (fst rest,
                 Fetch attempt #
                 (if attempt < retryAttempts p
                  then [Backoff (retryDelay p * 2 ^ (attempt - 1))] else []) @ snd rest))
      else
        (Inl (case lastError of
                Some e \<Rightarrow> e
              | None \<Rightarrow> \<lparr>ctor_name = ''Error'',
                          err_message = ''All attempts failed for '' @ exchangeName p\<rparr>), []))"
  by pat_completeness auto
termination
  by (relation "measure (\<lambda>(p, f, attempt, l). retryAttempts p + 1 - attempt)") auto

definition fetchWithRetry ::
  "PriceProvider \<Rightarrow> (nat \<Rightarrow> js_error + 'a) \<Rightarrow> (js_error + 'a) \<times> retry_event list" where
  "fetchWithRetry p fetchFn = fetchWithRetry_from p fetchFn 1 None"

section \<open>From providers to exchange prices\<close>

record ExchangePrice =
  exchange :: string
  price :: jsnum
  success :: bool
  error :: "string option"

record WeightedExchangePrice = ExchangePrice +
  weight :: jsnum
  normalizedWeight :: "jsnum option"

text \<open>What \<open>Promise.allSettled\<close> reports for one promise.\<close>

datatype 'a settled = Fulfilled 'a | Rejected

definition thrown_message :: "js_thrown \<Rightarrow> string" where
  "thrown_message t = (case t of ThrownError e \<Rightarrow> err_message e | ThrownValue _ _ \<Rightarrow> ''Unknown error'')"

definition promise_rejected :: ExchangePrice where
  "promise_rejected =
     \<lparr>exchange = ''Unknown'', price = Fin 0, success = False, error = Some ''Promise rejected''\<rparr>"

text \<open>
  The callback of \<open>mapProvidersToExchangePrices\<close> for one provider, in round \<open>n\<close>. A list
  entry that is no provider at all is \<open>None\<close>: the \<open>try\<close> block throws, and the handler, which
  reads \<open>provider.exchangeName\<close>, throws again, so the promise is rejected.
\<close>

definition exchangePriceOf :: "(jsnum \<Rightarrow> string) \<Rightarrow> nat \<Rightarrow> PriceProvider option \<Rightarrow> ExchangePrice settled" where
  "exchangePriceOf ts n provider =
     (case provider of
        None \<Rightarrow> Rejected
      | Some p \<Rightarrow>
          let failed = (\<lambda>msg. Fulfilled
                 \<lparr>exchange = (if exchangeName p = [] then ''Unknown'' else exchangeName p),
                  price = Fin 0, success = False, error = Some msg\<rparr>)
          in if exchangeName p = [] then failed ''Invalid provider configuration''
             else (case getHivePrice p n of
                     Inl t \<Rightarrow> failed (thrown_message t)
                   | Inr pr \<Rightarrow>
                       if \<not> isValidPrice (JNumber pr)
                       then failed (''Invalid price received: '' @ ts pr)
                       else Fulfilled \<lparr>exchange = exchangeName p, price = pr, success = True,
                                       error = None\<rparr>))"

definition mapProvidersToExchangePrices ::
  "(jsnum \<Rightarrow> string) \<Rightarrow> nat \<Rightarrow> PriceProvider option list \<Rightarrow> ExchangePrice list" where
  "mapProvidersToExchangePrices ts n ps =
     map (\<lambda>r. case r of Fulfilled v \<Rightarrow> v | Rejected \<Rightarrow> promise_rejected)
         (map (exchangePriceOf ts n) ps)"

text \<open>The callback of \<open>mapProvidersToDetailedPrices\<close>: no check of the name or of the price.\<close>

definition detailedPriceOf :: "nat \<Rightarrow> PriceProvider option \<Rightarrow> ExchangePrice settled" where
  "detailedPriceOf n provider =
     (case provider of
        None \<Rightarrow> Rejected
      | Some p \<Rightarrow>
          (case getHivePrice p n of
             Inr pr \<Rightarrow> Fulfilled \<lparr>exchange = exchangeName p, price = pr, success = True,
                                  error = None\<rparr>
           | Inl t \<Rightarrow> Fulfilled \<lparr>exchange = exchangeName p, price = Fin 0, success = False,
                                 error = Some (thrown_message t)\<rparr>))"

definition mapProvidersToDetailedPrices :: "nat \<Rightarrow> PriceProvider option list \<Rightarrow> ExchangePrice list" where
  "mapProvidersToDetailedPrices n ps =
     map (\<lambda>r. case r of Fulfilled v \<Rightarrow> v | Rejected \<Rightarrow> promise_rejected)
         (map (detailedPriceOf n) ps)"

section \<open>Arithmetic on JavaScript numbers\<close>

text \<open>
  Addition, multiplication and division: NaN is contagious, the infinities follow the
  IEEE rules, and finite operands are computed exactly.
\<close>

fun js_add :: "jsnum \<Rightarrow> jsnum \<Rightarrow> jsnum" where
  "js_add NaN _ = NaN"
| "js_add _ NaN = NaN"
| "js_add (Fin a) (Fin b) = Fin (a + b)"
| "js_add PInf NInf = NaN"
| "js_add NInf PInf = NaN"
| "js_add PInf _ = PInf"
| "js_add _ PInf = PInf"
| "js_add NInf _ = NInf"
| "js_add _ NInf = NInf"

definition signed_inf :: "bool \<Rightarrow> jsnum" where
  "signed_inf positive = (if positive then PInf else NInf)"

fun js_mul :: "jsnum \<Rightarrow> jsnum \<Rightarrow> jsnum" where
  "js_mul NaN _ = NaN"
| "js_mul _ NaN = NaN"
| "js_mul (Fin a) (Fin b) = Fin (a * b)"
| "js_mul (Fin a) PInf = (if a = 0 then NaN else signed_inf (0 < a))"
| "js_mul (Fin a) NInf = (if a = 0 then NaN else signed_inf (a < 0))"
| "js_mul PInf (Fin b) = (if b = 0 then NaN else signed_inf (0 < b))"
| "js_mul NInf (Fin b) = (if b = 0 then NaN else signed_inf (b < 0))"
| "js_mul PInf PInf = PInf"
| "js_mul NInf NInf = PInf"
| "js_mul PInf NInf = NInf"
| "js_mul NInf PInf = NInf"

fun js_div :: "jsnum \<Rightarrow> jsnum \<Rightarrow> jsnum" where
  "js_div NaN _ = NaN"
| "js_div _ NaN = NaN"
| "js_div (Fin a) (Fin b) =
     (if b = 0 then (if a = 0 then NaN else signed_inf (0 < a)) else Fin (a / b))"
| "js_div (Fin a) _ = Fin 0"
| "js_div PInf (Fin b) = signed_inf (0 \<le> b)"
| "js_div NInf (Fin b) = signed_inf (b < 0)"
| "js_div _ _ = NaN"

text \<open>A number is falsy when it is zero or NaN.\<close>

fun js_truthy :: "jsnum \<Rightarrow> bool" where
  "js_truthy NaN = False"
| "js_truthy (Fin r) = (r \<noteq> 0)"
| "js_truthy _ = True"

text \<open>
  Modelled from the spec: \<open>roundToThreeDecimals\<close> of the module \<open>@/utils/math\<close>, which is
  not among the sources. The spec says that a price is rounded to three decimal places;
  the model takes the nearest multiple of one thousandth, a tie going up, and leaves the
  infinities and NaN as they are.
\<close>

fun roundToThreeDecimals :: "jsnum \<Rightarrow> jsnum" where
  "roundToThreeDecimals (Fin r) = Fin (of_int \<lfloor>r * 1000 + 1 / 2\<rfloor> / 1000)"
| "roundToThreeDecimals x = x"

section \<open>The weighted average\<close>

definition calculateWeightedAverage :: "WeightedExchangePrice list \<Rightarrow> js_error + jsnum" where
  "calculateWeightedAverage prices =
     (let successfulPrices = filter success prices in
      if length successfulPrices = 0 then
        Inl \<lparr>ctor_name = ''Error'',
             err_message = ''No successful prices for weighted average calculation''\<rparr>
      else
        let totalWeight = foldl (\<lambda>sum p. js_add sum (weight p)) (Fin 0) successfulPrices in
        if js_eq totalWeight (Fin 0) then
          Inl \<lparr>ctor_name = ''Error'', err_message = ''Total weight cannot be zero''\<rparr>
        else
          let weightedSum =
                foldl (\<lambda>sum p. let normalizedWeight = js_div (weight p) totalWeight
                                in js_add sum (js_mul (price p) normalizedWeight))
                      (Fin 0) successfulPrices
          in Inr (roundToThreeDecimals weightedSum))"

section \<open>The price aggregator\<close>

record ProviderConfig =
  cfg_name :: string
  cfg_enabled :: bool
  cfg_weight :: jsnum
  cfg_timeout :: "nat option"
  cfg_maxRetries :: "nat option"

text \<open>\<open>toLowerCase\<close> on characters below 256: the letters A to Z and the accented capitals.\<close>

definition lower_char :: "char \<Rightarrow> char" where
  "lower_char c =
     (let n = (of_char c :: nat)
      in if (65 \<le> n \<and> n \<le> 90) \<or> (192 \<le> n \<and> n \<le> 222 \<and> n \<noteq> 215)
         then char_of (n + 32) else c)"

definition toLowerCase :: "string \<Rightarrow> string" where
  "toLowerCase s = map lower_char s"

record PriceAggregator =
  providers :: "PriceProvider option list"
  providersConfig :: "string \<rightharpoonup> ProviderConfig"
  agg_timeout :: nat
  agg_maxRetries :: nat

text \<open>
  The constructor. \<open>loaded\<close> is what \<open>loadProvidersFromEnv()\<close> gives (it may throw) and
  \<open>active\<close> what \<open>getActiveProvidersConfig()\<close> gives; they are used when the arguments are
  left out. A later configuration entry replaces an earlier one with the same key.
\<close>

definition new_PriceAggregator ::
  "PriceProvider option list option \<Rightarrow> ProviderConfig list option \<Rightarrow>
   js_error + PriceProvider option list \<Rightarrow> ProviderConfig list \<Rightarrow> js_error + PriceAggregator" where
  "new_PriceAggregator ps config loaded active =
     (if ps = Some [] then
        Inl \<lparr>ctor_name = ''Error'', err_message = ''At least one price provider is required''\<rparr>
      else
        (case (case ps of Some l \<Rightarrow> Inr l | None \<Rightarrow> loaded) of
           Inl e \<Rightarrow> Inl e
         | Inr l \<Rightarrow>
             Inr \<lparr>providers = l,
                  providersConfig =
                    foldl (\<lambda>m cfg. m(toLowerCase (cfg_name cfg) \<mapsto> cfg)) Map.empty
                          (case config of Some c \<Rightarrow> c | None \<Rightarrow> active),
                  agg_timeout = 5000, agg_maxRetries = 3\<rparr>))"

definition applyWeights :: "PriceAggregator \<Rightarrow> ExchangePrice list \<Rightarrow> WeightedExchangePrice list" where
  "applyWeights agg exchangePrices =
     map (\<lambda>ep. \<lparr>exchange = exchange ep, price = price ep, success = success ep,
                 error = error ep,
                 weight = (case providersConfig agg (toLowerCase (exchange ep)) of
                             None \<Rightarrow> Fin 1
                           | Some config \<Rightarrow>
                               if js_truthy (cfg_weight config) then cfg_weight config
                               else Fin 1),
                 normalizedWeight = None\<rparr>)
         exchangePrices"

definition calculateFinalPrice :: "PriceAggregator \<Rightarrow> ExchangePrice list \<Rightarrow> js_error + jsnum" where
  "calculateFinalPrice agg successfulPrices =
     (if length successfulPrices = 0 then
        Inl \<lparr>ctor_name = ''Error'', err_message = ''No successful prices to calculate average''\<rparr>
      else
        let weightedPrices = applyWeights agg successfulPrices;
            hasWeights = list_ex (\<lambda>p. \<not> js_eq (weight p) (Fin 1)) weightedPrices
        in if hasWeights then calculateWeightedAverage weightedPrices
           else
             let totalPrice = foldl (\<lambda>sum ep. js_add sum (price ep)) (Fin 0) successfulPrices;
                 averagePrice = js_div totalPrice (Fin (real (length successfulPrices)))
             in Inr (roundToThreeDecimals averagePrice))"

text \<open>
  One round raced against the deadline: \<open>deadline n\<close> tells whether the timer wins round
  \<open>n\<close>, and then the round counts as having produced nothing.
\<close>

definition fetchPricesWithTimeout ::
  "(jsnum \<Rightarrow> string) \<Rightarrow> PriceAggregator \<Rightarrow> (nat \<Rightarrow> bool) \<Rightarrow> nat \<Rightarrow> ExchangePrice list" where
  "fetchPricesWithTimeout ts agg deadline n =
     (if deadline n then [] else mapProvidersToExchangePrices ts n (providers agg))"

text \<open>Decimal digits of a natural number, as a template literal renders a small integer.\<close>

fun show_nat :: "nat \<Rightarrow> string" where
  "show_nat n = (if n < 10 then [''0123456789'' ! n]
                 else show_nat (n div 10) @ [''0123456789'' ! (n mod 10)])"

datatype round_event = Round nat | Pause nat

text \<open>
  The \<open>while\<close> loop of \<open>getAggregatedHivePrice\<close> from the attempt \<open>attempt\<close> on. An error
  thrown inside the \<open>try\<close> block is caught, and the loop goes on as after an empty round.
\<close>

function rounds_from ::
  "(jsnum \<Rightarrow> string) \<Rightarrow> PriceAggregator \<Rightarrow> (nat \<Rightarrow> bool) \<Rightarrow> nat \<Rightarrow>
     (js_error + jsnum) \<times> round_event list" where
  "rounds_from ts agg deadline attempt =
     (if attempt \<le> agg_maxRetries agg then
        let exchangePrices = fetchPricesWithTimeout ts agg deadline attempt;
            successfulPrices = filter success exchangePrices;
            tried = (if length successfulPrices > 0
                     then Some (calculateFinalPrice agg successfulPrices) else None)
        in (case tried of
              Some (Inr v) \<Rightarrow> (Inr v, [Round attempt])
            | _ \<Rightarrow>
                let rest = rounds_from ts agg deadline (attempt + 1)
                in (fst rest,
                    Round attempt #
                    (if attempt < agg_maxRetries agg then [Pause (2000 * attempt)] else [])
                    @ snd rest))
      else
        (Inl \<lparr>ctor_name = ''Error'',
              err_message = ''Failed to obtain HIVE price after '' @ show_nat (agg_maxRetries agg)
                            @ '' attempts. All exchanges failed or timed out.''\<rparr>, []))"
  by pat_completeness auto
termination
  by (relation "measure (\<lambda>(ts, agg, d, attempt). agg_maxRetries agg + 1 - attempt)") auto

definition getAggregatedHivePrice ::
  "(jsnum \<Rightarrow> string) \<Rightarrow> PriceAggregator \<Rightarrow> (nat \<Rightarrow> bool) \<Rightarrow>
     (js_error + jsnum) \<times> round_event list" where
  "getAggregatedHivePrice ts agg deadline =
     (if length (providers agg) = 0 then
        (Inl \<lparr>ctor_name = ''Error'', err_message = ''No price providers configured''\<rparr>, [])
      else rounds_from ts agg deadline 1)"

definition getDetailedPrices :: "PriceAggregator \<Rightarrow> nat \<Rightarrow> ExchangePrice list settled" where
  "getDetailedPrices agg n = Fulfilled (mapProvidersToDetailedPrices n (providers agg))"

section \<open>The failover wrapper of the chain endpoints\<close>

definition constructor_name :: "js_thrown \<Rightarrow> string option" where
  "constructor_name t = (case t of ThrownError e \<Rightarrow> Some (ctor_name e) | ThrownValue c _ \<Rightarrow> c)"

definition isRecoverableChainError :: "js_thrown \<Rightarrow> bool" where
  "isRecoverableChainError err =
     (let errorName = constructor_name err;
          recoverableErrors = [''WaxRequestTimeoutError'', ''WaxNon_2XX_3XX_ResponseCodeError'',
                               ''WaxUnknownRequestError'']
      in (case errorName of None \<Rightarrow> [] | Some n \<Rightarrow> n) \<in> set recoverableErrors)"

text \<open>Reading an array: an index out of range gives \<open>undefined\<close>, here \<open>None\<close>.\<close>

definition js_index :: "'a list \<Rightarrow> nat \<Rightarrow> 'a option" where
  "js_index xs i = (if i < length xs then Some (xs ! i) else None)"

text \<open>Of the chain object the wrapper touches one field, the endpoint URL.\<close>

datatype hive_chain = HiveChain (endpointUrl: "string option")

record HiveChainFailoverConfig =
  fc_nodes :: "string list"
  fc_timeout :: "nat option"
  fc_maxRetries :: "nat option"
  fc_baseRetryDelay :: "real option"
  fc_maxRetryDelay :: "real option"

record HiveChainWithFailover =
  chain :: "hive_chain option"
  nodes :: "string list"
  currentNodeIndex :: nat
  timeout :: nat
  maxRetries :: nat
  baseRetryDelay :: real
  maxRetryDelay :: real

definition new_HiveChainWithFailover :: "HiveChainFailoverConfig \<Rightarrow> js_error + HiveChainWithFailover" where
  "new_HiveChainWithFailover config =
     (if length (fc_nodes config) = 0 then
        Inl \<lparr>ctor_name = ''Error'', err_message = ''At least one RPC node must be provided''\<rparr>
      else
        Inr \<lparr>chain = None, nodes = fc_nodes config, currentNodeIndex = 0,
             timeout = (case fc_timeout config of None \<Rightarrow> 2000 | Some t \<Rightarrow> t),
             maxRetries = (case fc_maxRetries config of None \<Rightarrow> length (fc_nodes config) * 2
                           | Some m \<Rightarrow> m),
             baseRetryDelay = (case fc_baseRetryDelay config of None \<Rightarrow> 500 | Some d \<Rightarrow> d),
             maxRetryDelay = (case fc_maxRetryDelay config of None \<Rightarrow> 5000 | Some d \<Rightarrow> d)\<rparr>)"

text \<open>\<open>initialize\<close>, when \<open>createHiveChain\<close> succeeds.\<close>

definition initialize :: "HiveChainWithFailover \<Rightarrow> HiveChainWithFailover" where
  "initialize w = w\<lparr>chain := Some (HiveChain (js_index (nodes w) (currentNodeIndex w)))\<rparr>"

datatype failover_event =
    Exec nat "string option"
  | Switch "string option" "string option"
  | Wait real

text \<open>
  \<open>switchToNextNode\<close>: the error it may throw, the wrapper after it, and what it did.
  The list of nodes is never empty (the constructor refuses an empty one).
\<close>

definition switchToNextNode ::
  "HiveChainWithFailover \<Rightarrow> js_thrown option \<times> HiveChainWithFailover \<times> failover_event list" where
  "switchToNextNode w =
     (let previousNode = js_index (nodes w) (currentNodeIndex w);
          w1 = w\<lparr>currentNodeIndex := (currentNodeIndex w + 1) mod length (nodes w)\<rparr>;
          newNode = js_index (nodes w1) (currentNodeIndex w1)
      in case chain w1 of
           None \<Rightarrow>
             (Some (ThrownError \<lparr>ctor_name = ''Error'', err_message = ''Chain not initialized''\<rparr>),
              w1, [])
         | Some c \<Rightarrow> (None, w1\<lparr>chain := Some (HiveChain newNode)\<rparr>, [Switch previousNode newNode]))"

text \<open>
  The \<open>while\<close> loop of \<open>executeWithFailover\<close>, from the value \<open>attempt\<close> of its counter
  on. \<open>operation k c\<close> is what the \<open>k\<close>-th call of the operation (counted from 0) does on the
  chain object \<open>c\<close>: it throws (left) or returns (right). \<open>rand k\<close> is the value that
  \<open>Math.random()\<close> gives after the \<open>k\<close>-th call has failed. The result holds the outcome,
  the wrapper as it is left, and the calls, switches and sleeps in their order.
\<close>

function failover_loop ::
  "(nat \<Rightarrow> hive_chain option \<Rightarrow> js_thrown + 'a) \<Rightarrow> (nat \<Rightarrow> real) \<Rightarrow>
   HiveChainWithFailover \<Rightarrow> nat \<Rightarrow> js_thrown option \<Rightarrow>
     (js_thrown + 'a) \<times> HiveChainWithFailover \<times> failover_event list" where
  "failover_loop operation rand w attempt lastError =
     (if attempt < maxRetries w then
        let currentNode = js_index (nodes w) (currentNodeIndex w) in
        (case operation attempt (chain w) of
           Inr result \<Rightarrow> (Inr result, w, [Exec attempt currentNode])
         | Inl err \<Rightarrow>
             if \<not> isRecoverableChainError err then (Inl err, w, [Exec attempt currentNode])
             else if attempt + 1 < maxRetries w then
               (case switchToNextNode w of
                  (Some thrown, w1, evs) \<Rightarrow> (Inl thrown, w1, Exec attempt currentNode # evs)
                | (None, w1, evs) \<Rightarrow>
                    let delay = min (baseRetryDelay w1 * 2 ^ (attempt + 1) + rand attempt * 100)
                                    (maxRetryDelay w1);
                        rest = failover_loop operation rand w1 (attempt + 1) (Some err)
                    in (fst rest, fst (snd rest),
                        Exec attempt currentNode # evs @ [Wait delay] @ snd (snd rest)))
             else
               let rest = failover_loop operation rand w (attempt + 1) (Some err)
               in (fst rest, fst (snd rest), Exec attempt currentNode # snd (snd rest)))
      else
        (Inl (case lastError of Some e \<Rightarrow> e | None \<Rightarrow> ThrownValue None ''undefined''),
         w, []))"
  by pat_completeness auto
termination
  by (relation "measure (\<lambda>(operation, rand, w, attempt, l). maxRetries w - attempt)")
     (auto simp: switchToNextNode_def Let_def split: option.splits)

definition executeWithFailover ::
  "(nat \<Rightarrow> hive_chain option \<Rightarrow> js_thrown + 'a) \<Rightarrow> (nat \<Rightarrow> real) \<Rightarrow> HiveChainWithFailover \<Rightarrow>
     (js_thrown + 'a) \<times> HiveChainWithFailover \<times> failover_event list" where
  "executeWithFailover operation rand w =
     (case chain w of
        None \<Rightarrow>
          (Inl (ThrownError \<lparr>ctor_name = ''Error'',
                             err_message = ''Chain not initialized. Call initialize() first.''\<rparr>),
           w, [])
      | Some c \<Rightarrow> failover_loop operation rand w 0 None)"

section \<open>Notions for stating the properties\<close>

text \<open>The three markers that the classifier looks for in a message, as it tests them.\<close>

abbreviation timeout_marker :: "string \<Rightarrow> bool" where
  "timeout_marker msg \<equiv> js_includes msg ''timeout'' \<or> js_includes msg ''ETIMEDOUT''"

abbreviation connection_marker :: "string \<Rightarrow> bool" where
  "connection_marker msg \<equiv>
     js_includes msg ''ECONNREFUSED'' \<or> (js_includes msg ''connection'' \<and> js_includes msg ''failed'')"

abbreviation rate_limit_marker :: "string \<Rightarrow> bool" where
  "rate_limit_marker msg \<equiv> js_includes msg ''rate limit'' \<or> js_includes msg ''429''"

declare fetchWithRetry_from.simps [simp del]

text \<open>Counting the calls in a trace, and the trace of the attempts \<open>a\<close> to \<open>k\<close>: a call, the
  backoff after it, the next call, and so on, ending with the call number \<open>k\<close>.\<close>

fun is_fetch :: "retry_event \<Rightarrow> bool" where
  "is_fetch (Fetch _) = True"
| "is_fetch (Backoff _) = False"

definition retry_schedule :: "PriceProvider \<Rightarrow> nat \<Rightarrow> nat \<Rightarrow> retry_event list" where
  "retry_schedule p a k =
     concat (map (\<lambda>j. [Fetch j, Backoff (retryDelay p * 2 ^ (j - 1))]) [a..<k]) @ [Fetch k]"

declare rounds_from.simps [simp del]

text \<open>
  The trace of the rounds \<open>a\<close> to \<open>n\<close> when none of them ends the loop: a round, the pause
  after it, the next round, and so on, ending with round \<open>n\<close>.
\<close>

fun is_round :: "round_event \<Rightarrow> bool" where
  "is_round (Round _) = True"
| "is_round (Pause _) = False"

definition round_schedule :: "nat \<Rightarrow> nat \<Rightarrow> round_event list" where
  "round_schedule a n = concat (map (\<lambda>k. [Round k, Pause (2000 * k)]) [a..<n]) @ [Round n]"

definition exhausted_message :: "nat \<Rightarrow> string" where
  "exhausted_message n =
     ''Failed to obtain HIVE price after '' @ show_nat n
     @ '' attempts. All exchanges failed or timed out.''"


declare failover_loop.simps [simp del]

text \<open>
  Counting the calls and the sleeps in a trace of the wrapper, and the wrapper after \<open>j\<close>
  switches: the index has moved \<open>j\<close> places round the list, and the chain object points at
  the node there.
\<close>

fun is_exec :: "failover_event \<Rightarrow> bool" where
  "is_exec (Exec _ _) = True"
| "is_exec _ = False"

fun is_wait :: "failover_event \<Rightarrow> bool" where
  "is_wait (Wait _) = True"
| "is_wait _ = False"

definition rotated :: "HiveChainWithFailover \<Rightarrow> nat \<Rightarrow> HiveChainWithFailover" where
  "rotated w j =
     w\<lparr>chain := Some (HiveChain (js_index (nodes w)
                                   ((currentNodeIndex w + j) mod length (nodes w)))),
       currentNodeIndex := (currentNodeIndex w + j) mod length (nodes w)\<rparr>"

text \<open>A wrapper as the constructor and \<open>initialize\<close> leave it, and as every switch keeps it.\<close>

definition ready :: "HiveChainWithFailover \<Rightarrow> bool" where
  "ready w \<longleftrightarrow>
     nodes w \<noteq> [] \<and> currentNodeIndex w < length (nodes w)
     \<and> chain w = Some (HiveChain (js_index (nodes w) (currentNodeIndex w)))"

section \<open>Concrete inputs\<close>

text \<open>A stand-in for \<open>parseFloat\<close> that knows one numeral, and one for the rendering of numbers.\<close>

definition demo_parseFloat :: "string \<Rightarrow> jsnum" where
  "demo_parseFloat s = (if s = ''0.25'' then Fin (1 / 4) else NaN)"

definition demo_toString :: "jsnum \<Rightarrow> string" where
  "demo_toString n = ''?''"

text \<open>A provider with the default budget, a fetch that succeeds at its third call, one that never does.\<close>

definition transient_error :: js_error where
  "transient_error = \<lparr>ctor_name = ''PriceNetworkError'', err_message = ''Request timeout after 10000ms''\<rparr>"

definition demo_provider :: PriceProvider where
  "demo_provider = \<lparr>exchangeName = ''MEXC'', retryAttempts = 3, retryDelay = 1000,
                     getHivePrice = (\<lambda>n. Inr (Fin (21 / 2)))\<rparr>"

definition flaky_fetch :: "nat \<Rightarrow> js_error + jsnum" where
  "flaky_fetch k = (if k < 3 then Inl transient_error else Inr (Fin (21 / 2)))"

definition failing_fetch :: "nat \<Rightarrow> js_error + jsnum" where
  "failing_fetch k = Inl \<lparr>ctor_name = ''Error'', err_message = ''failure '' @ show_nat k\<rparr>"

text \<open>
  An aggregator over two providers, one that always throws and one that always returns
  NaN, and a deadline that wins the second round.
\<close>

definition throwing_provider :: PriceProvider where
  "throwing_provider =
     \<lparr>exchangeName = ''Binance'', retryAttempts = 3, retryDelay = 1000,
      getHivePrice = (\<lambda>n. Inl (ThrownError \<lparr>ctor_name = ''Error'',
                                  err_message = ''Failed to fetch any HIVE prices from Binance''\<rparr>))\<rparr>"

definition nan_provider :: PriceProvider where
  "nan_provider = \<lparr>exchangeName = ''MEXC'', retryAttempts = 3, retryDelay = 1000,
                    getHivePrice = (\<lambda>n. Inr NaN)\<rparr>"

definition failing_aggregator :: PriceAggregator where
  "failing_aggregator =
     \<lparr>providers = [Some throwing_provider, Some nan_provider], providersConfig = Map.empty,
      agg_timeout = 5000, agg_maxRetries = 3\<rparr>"

definition second_round_late :: "nat \<Rightarrow> bool" where
  "second_round_late n = (n = 2)"

text \<open>A provider that returns a quarter, and a list with it, two failing providers and a hole.\<close>

definition quarter_provider :: PriceProvider where
  "quarter_provider = \<lparr>exchangeName = ''Huobi'', retryAttempts = 3, retryDelay = 1000,
                        getHivePrice = (\<lambda>n. Inr (Fin (1 / 4)))\<rparr>"

definition mixed_providers :: "PriceProvider option list" where
  "mixed_providers = [Some quarter_provider, Some nan_provider, None, Some throwing_provider]"

definition broken_aggregator :: PriceAggregator where
  "broken_aggregator =
     \<lparr>providers = [Some throwing_provider, None], providersConfig = Map.empty,
      agg_timeout = 5000, agg_maxRetries = 3\<rparr>"

text \<open>
  Two successful prices, 9 from Binance and 12 from MEXC, and three aggregators: one that
  gives Binance the weight 2, one that gives it the weight 0 and MEXC the weight 2, and
  one that gives Binance the weight -1. MEXC has no entry in the first and in the third.
\<close>

definition nine_and_twelve :: "ExchangePrice list" where
  "nine_and_twelve =
     [\<lparr>exchange = ''Binance'', price = Fin 9, success = True, error = None\<rparr>,
      \<lparr>exchange = ''MEXC'', price = Fin 12, success = True, error = None\<rparr>]"

definition weight_config :: "string \<Rightarrow> jsnum \<Rightarrow> ProviderConfig" where
  "weight_config n w =
     \<lparr>cfg_name = n, cfg_enabled = True, cfg_weight = w, cfg_timeout = None, cfg_maxRetries = None\<rparr>"

definition nine_provider :: PriceProvider where
  "nine_provider = \<lparr>exchangeName = ''Binance'', retryAttempts = 3, retryDelay = 1000,
                     getHivePrice = (\<lambda>n. Inr (Fin 9))\<rparr>"

definition twelve_provider :: PriceProvider where
  "twelve_provider = \<lparr>exchangeName = ''MEXC'', retryAttempts = 3, retryDelay = 1000,
                       getHivePrice = (\<lambda>n. Inr (Fin 12))\<rparr>"

definition never_late :: "nat \<Rightarrow> bool" where
  "never_late n = False"

definition aggregator_with :: "ProviderConfig list \<Rightarrow> PriceAggregator" where
  "aggregator_with cfgs =
     \<lparr>providers = [Some nine_provider, Some twelve_provider],
      providersConfig = foldl (\<lambda>m cfg. m(toLowerCase (cfg_name cfg) \<mapsto> cfg)) Map.empty cfgs,
      agg_timeout = 5000, agg_maxRetries = 3\<rparr>"


definition zero_binance :: PriceAggregator where
  "zero_binance = aggregator_with [weight_config ''binance'' (Fin 0), weight_config ''mexc'' (Fin 2)]"

definition negative_binance :: PriceAggregator where
  "negative_binance = aggregator_with [weight_config ''binance'' (Fin (- 1))]"

text \<open>
  A wrapper over three nodes, built by the constructor with its defaults and initialised;
  an operation that times out unless it runs against the third node; one that is refused
  everywhere with a plain \<open>Error\<close>; and a random source that always gives one half.
\<close>

definition three_nodes_config :: HiveChainFailoverConfig where
  "three_nodes_config =
     \<lparr>fc_nodes = [''https://a.example'', ''https://b.example'', ''https://c.example''],
      fc_timeout = None, fc_maxRetries = None, fc_baseRetryDelay = None,
      fc_maxRetryDelay = None\<rparr>"

definition three_nodes :: HiveChainWithFailover where
  "three_nodes =
     \<lparr>chain = Some (HiveChain (Some ''https://a.example'')),
      nodes = [''https://a.example'', ''https://b.example'', ''https://c.example''],
      currentNodeIndex = 0, timeout = 2000, maxRetries = 6, baseRetryDelay = 500,
      maxRetryDelay = 5000\<rparr>"

definition timeout_error :: js_thrown where
  "timeout_error = ThrownError \<lparr>ctor_name = ''WaxRequestTimeoutError'', err_message = ''timed out''\<rparr>"

definition bad_request :: js_thrown where
  "bad_request = ThrownError \<lparr>ctor_name = ''Error'', err_message = ''Missing authority''\<rparr>"

definition only_c_answers :: "nat \<Rightarrow> hive_chain option \<Rightarrow> js_thrown + string" where
  "only_c_answers k c =
     (if c = Some (HiveChain (Some ''https://c.example'')) then Inr ''tx-1'' else Inl timeout_error)"

definition always_refused :: "nat \<Rightarrow> hive_chain option \<Rightarrow> js_thrown + string" where
  "always_refused k c = Inl bad_request"

definition one_half :: "nat \<Rightarrow> real" where
  "one_half k = 1 / 2"

chapter \<open>Properties\<close>

section \<open>The validator\<close>

text \<open>
  C3. For every raw input the validator fails with the code for a missing field when the
  value is \<open>null\<close> or \<open>undefined\<close>; otherwise a string is coerced by \<open>parseFloat\<close> and a
  number is taken as it is, and the validator fails with the code for invalid data when
  the coerced value is NaN or not finite, fails with the code for a value out of range
  when the coerced price is at most 0 or greater than 10000, and returns the coerced price
  in every remaining case. It is a function of its arguments alone, and on every input it
  gives one of these four answers.
\<close>

theorem validatePriceData_cases:
  "(d = JNull \<or> d = JUndefined \<longrightarrow>
      (\<exists>e. validatePriceData pf ts d symbol ex = Inl e \<and> cls e = PriceValidationError
           \<and> code e = MISSING_PRICE_FIELD))
   \<and> (d \<noteq> JNull \<and> d \<noteq> JUndefined \<and>
        (js_isNaN (js_Number pf d) \<or> \<not> js_isFinite (js_Number pf d)) \<longrightarrow>
      (\<exists>e. validatePriceData pf ts d symbol ex = Inl e \<and> cls e = PriceValidationError
           \<and> code e = INVALID_PRICE_DATA))
   \<and> (d \<noteq> JNull \<and> d \<noteq> JUndefined \<and> js_Number pf d = Fin p \<and> (p \<le> 0 \<or> 10000 < p) \<longrightarrow>
      (\<exists>e. validatePriceData pf ts d symbol ex = Inl e \<and> cls e = PriceValidationError
           \<and> code e = PRICE_OUT_OF_RANGE))
   \<and> (d \<noteq> JNull \<and> d \<noteq> JUndefined \<and> js_Number pf d = Fin p \<and> 0 < p \<and> p \<le> 10000 \<longrightarrow>
      validatePriceData pf ts d symbol ex = Inr (Fin p))
   \<and> js_Number pf (JString s) = pf s \<and> js_Number pf (JNumber n) = n
   \<and> ((\<exists>e. validatePriceData pf ts d symbol ex = Inl e \<and> cls e = PriceValidationError \<and>
            (code e = MISSING_PRICE_FIELD \<or> code e = INVALID_PRICE_DATA
             \<or> code e = PRICE_OUT_OF_RANGE))
       \<or> (\<exists>q. validatePriceData pf ts d symbol ex = Inr (Fin q) \<and> 0 < q \<and> q \<le> 10000))"
proof -
  have absent: "d = JNull \<or> d = JUndefined \<Longrightarrow>
      \<exists>e. validatePriceData pf ts d symbol ex = Inl e \<and> cls e = PriceValidationError
           \<and> code e = MISSING_PRICE_FIELD"
    by (auto simp: validatePriceData_def new_PriceValidationError_def)
  have invalid: "d \<noteq> JNull \<Longrightarrow> d \<noteq> JUndefined \<Longrightarrow>
      js_isNaN (js_Number pf d) \<or> \<not> js_isFinite (js_Number pf d) \<Longrightarrow>
      \<exists>e. validatePriceData pf ts d symbol ex = Inl e \<and> cls e = PriceValidationError
           \<and> code e = INVALID_PRICE_DATA"
    by (auto simp: validatePriceData_def new_PriceValidationError_def Let_def)
  have range: "d \<noteq> JNull \<Longrightarrow> d \<noteq> JUndefined \<Longrightarrow> js_Number pf d = Fin p \<Longrightarrow>
      p \<le> 0 \<or> 10000 < p \<Longrightarrow>
      \<exists>e. validatePriceData pf ts d symbol ex = Inl e \<and> cls e = PriceValidationError
           \<and> code e = PRICE_OUT_OF_RANGE"
    by (auto simp: validatePriceData_def new_PriceValidationError_def Let_def)
  have good: "d \<noteq> JNull \<Longrightarrow> d \<noteq> JUndefined \<Longrightarrow> js_Number pf d = Fin p \<Longrightarrow>
      0 < p \<Longrightarrow> p \<le> 10000 \<Longrightarrow> validatePriceData pf ts d symbol ex = Inr (Fin p)"
    by (auto simp: validatePriceData_def Let_def)
  have coerce: "js_Number pf (JString s) = pf s \<and> js_Number pf (JNumber n) = n"
    by (simp add: js_Number_def)
  have total: "(\<exists>e. validatePriceData pf ts d symbol ex = Inl e \<and> cls e = PriceValidationError \<and>
            (code e = MISSING_PRICE_FIELD \<or> code e = INVALID_PRICE_DATA
             \<or> code e = PRICE_OUT_OF_RANGE))
       \<or> (\<exists>q. validatePriceData pf ts d symbol ex = Inr (Fin q) \<and> 0 < q \<and> q \<le> 10000)"
    by (cases "js_Number pf d")
       (auto simp: validatePriceData_def new_PriceValidationError_def Let_def)
  from absent invalid range good coerce total show ?thesis by blast
qed

theorem validatePriceData_cases_witness:
  "map_sum code id (validatePriceData demo_parseFloat demo_toString JNull ''HIVE-USDT'' ''Probit'')
     = Inl MISSING_PRICE_FIELD
   \<and> map_sum code id
        (validatePriceData demo_parseFloat demo_toString (JString ''abc'') ''HIVE-USDT'' ''Probit'')
     = Inl INVALID_PRICE_DATA
   \<and> map_sum code id
        (validatePriceData demo_parseFloat demo_toString (JNumber (Fin 20000)) ''HIVEUSDT'' ''Huobi'')
     = Inl PRICE_OUT_OF_RANGE
   \<and> validatePriceData demo_parseFloat demo_toString (JString ''0.25'') ''HIVE-USDT'' ''Probit''
     = Inr (Fin (1 / 4))"
proof -
  have a: "map_sum code id (validatePriceData demo_parseFloat demo_toString JNull ''HIVE-USDT'' ''Probit'')
     = Inl MISSING_PRICE_FIELD"
    using validatePriceData_cases [of JNull demo_parseFloat demo_toString "''HIVE-USDT''" "''Probit''", THEN conjunct1]
    by auto
  have b: "map_sum code id
        (validatePriceData demo_parseFloat demo_toString (JString ''abc'') ''HIVE-USDT'' ''Probit'')
     = Inl INVALID_PRICE_DATA"
    using validatePriceData_cases [of "JString ''abc''" demo_parseFloat demo_toString "''HIVE-USDT''" "''Probit''",
          THEN conjunct2, THEN conjunct1]
    by (auto simp: js_Number_def demo_parseFloat_def)
  have c: "map_sum code id
        (validatePriceData demo_parseFloat demo_toString (JNumber (Fin 20000)) ''HIVEUSDT'' ''Huobi'')
     = Inl PRICE_OUT_OF_RANGE"
    using validatePriceData_cases [of "JNumber (Fin 20000)" demo_parseFloat demo_toString "''HIVEUSDT''" "''Huobi''" 20000,
          THEN conjunct2, THEN conjunct2, THEN conjunct1]
    by (auto simp: js_Number_def)
  have d: "validatePriceData demo_parseFloat demo_toString (JString ''0.25'') ''HIVE-USDT'' ''Probit''
     = Inr (Fin (1 / 4))"
    using validatePriceData_cases [of "JString ''0.25''" demo_parseFloat demo_toString "''HIVE-USDT''" "''Probit''" "1/4",
          THEN conjunct2, THEN conjunct2, THEN conjunct2, THEN conjunct1]
    by (simp add: js_Number_def demo_parseFloat_def)
  from a b c d show ?thesis by blast
qed

section \<open>The error classifier\<close>

lemmas classifier_defs =
  createPriceError_def new_PriceNetworkError_def new_PriceAPIError_def isRetryable_def
  getRetryDelay_def Let_def

lemma classify_timeout:
  "timeout_marker msg \<longrightarrow>
      cls (createPriceError msg cs ctx) = PriceNetworkError
      \<and> code (createPriceError msg cs ctx) = NETWORK_TIMEOUT
      \<and> isRetryable (createPriceError msg cs ctx)
      \<and> getRetryDelay (createPriceError msg cs ctx) = 2000"
  by (auto simp: classifier_defs)

lemma classify_connection:
  "\<not> timeout_marker msg \<and> connection_marker msg \<longrightarrow>
      cls (createPriceError msg cs ctx) = PriceNetworkError
      \<and> code (createPriceError msg cs ctx) = NETWORK_CONNECTION_FAILED
      \<and> isRetryable (createPriceError msg cs ctx)
      \<and> getRetryDelay (createPriceError msg cs ctx) = 3000"
  by (auto simp: classifier_defs)

lemma classify_rate_limit:
  "\<not> timeout_marker msg \<and> \<not> connection_marker msg \<and> rate_limit_marker msg \<longrightarrow>
      cls (createPriceError msg cs ctx) = PriceAPIError
      \<and> code (createPriceError msg cs ctx) = API_RATE_LIMITED
      \<and> isRetryable (createPriceError msg cs ctx)
      \<and> getRetryDelay (createPriceError msg cs ctx) =
          (case extractRetryAfter msg of
             None \<Rightarrow> 5000
           | Some secs \<Rightarrow> if secs = 0 then 5000 else secs * 1000)"
  by (cases "extractRetryAfter msg") (auto simp: classifier_defs)

lemma classify_status:
  "\<not> timeout_marker msg \<and> \<not> connection_marker msg \<and> \<not> rate_limit_marker msg \<longrightarrow>
      cls (createPriceError msg cs ctx) = PriceAPIError
      \<and> (\<forall>st. extractHttpStatus msg = Some st \<and> 500 \<le> st \<longrightarrow>
            code (createPriceError msg cs ctx) = API_SERVER_ERROR
            \<and> isRetryable (createPriceError msg cs ctx)
            \<and> getRetryDelay (createPriceError msg cs ctx) = 3000)
      \<and> (extractHttpStatus msg = Some 404 \<longrightarrow>
            code (createPriceError msg cs ctx) = API_NOT_FOUND
            \<and> \<not> isRetryable (createPriceError msg cs ctx))
      \<and> (extractHttpStatus msg = Some 401 \<or> extractHttpStatus msg = Some 403 \<longrightarrow>
            code (createPriceError msg cs ctx) = API_UNAUTHORIZED
            \<and> \<not> isRetryable (createPriceError msg cs ctx))
      \<and> ((\<forall>st. extractHttpStatus msg = Some st \<longrightarrow>
                 st < 500 \<and> st \<noteq> 404 \<and> st \<noteq> 401 \<and> st \<noteq> 403) \<longrightarrow>
            code (createPriceError msg cs ctx) = API_INVALID_RESPONSE
            \<and> \<not> isRetryable (createPriceError msg cs ctx))"
  by (cases "extractHttpStatus msg") (auto simp: classifier_defs)

text \<open>
  C4, as amended. For every message, cause and context the classifier applies the first
  rule that matches, in this order: a timeout marker gives a network timeout, retryable,
  delay 2000; a marker of a refused or failed connection gives a failed connection,
  retryable, delay 3000; a rate-limit marker gives a rate-limited error, retryable, whose
  delay is the parsed retry-after seconds times 1000 when a value was parsed and is not
  zero, and 5000 otherwise; with none of the markers, an extracted status of at least 500
  gives a server error, retryable, delay 3000; 404 gives not-found, 401 and 403 give
  unauthorized, and everything else an invalid response, none of the three retryable.
  Retryability and delay are those that the error's own methods report.
\<close>

theorem createPriceError_first_match:
  "(timeout_marker msg \<longrightarrow>
      cls (createPriceError msg cs ctx) = PriceNetworkError
      \<and> code (createPriceError msg cs ctx) = NETWORK_TIMEOUT
      \<and> isRetryable (createPriceError msg cs ctx)
      \<and> getRetryDelay (createPriceError msg cs ctx) = 2000)
   \<and> (\<not> timeout_marker msg \<and> connection_marker msg \<longrightarrow>
      cls (createPriceError msg cs ctx) = PriceNetworkError
      \<and> code (createPriceError msg cs ctx) = NETWORK_CONNECTION_FAILED
      \<and> isRetryable (createPriceError msg cs ctx)
      \<and> getRetryDelay (createPriceError msg cs ctx) = 3000)
   \<and> (\<not> timeout_marker msg \<and> \<not> connection_marker msg \<and> rate_limit_marker msg \<longrightarrow>
      cls (createPriceError msg cs ctx) = PriceAPIError
      \<and> code (createPriceError msg cs ctx) = API_RATE_LIMITED
      \<and> isRetryable (createPriceError msg cs ctx)
      \<and> getRetryDelay (createPriceError msg cs ctx) =
          (case extractRetryAfter msg of
             None \<Rightarrow> 5000
           | Some secs \<Rightarrow> if secs = 0 then 5000 else secs * 1000))
   \<and> (\<not> timeout_marker msg \<and> \<not> connection_marker msg \<and> \<not> rate_limit_marker msg \<longrightarrow>
      cls (createPriceError msg cs ctx) = PriceAPIError
      \<and> (\<forall>st. extractHttpStatus msg = Some st \<and> 500 \<le> st \<longrightarrow>
            code (createPriceError msg cs ctx) = API_SERVER_ERROR
            \<and> isRetryable (createPriceError msg cs ctx)
            \<and> getRetryDelay (createPriceError msg cs ctx) = 3000)
      \<and> (extractHttpStatus msg = Some 404 \<longrightarrow>
            code (createPriceError msg cs ctx) = API_NOT_FOUND
            \<and> \<not> isRetryable (createPriceError msg cs ctx))
      \<and> (extractHttpStatus msg = Some 401 \<or> extractHttpStatus msg = Some 403 \<longrightarrow>
            code (createPriceError msg cs ctx) = API_UNAUTHORIZED
            \<and> \<not> isRetryable (createPriceError msg cs ctx))
      \<and> ((\<forall>st. extractHttpStatus msg = Some st \<longrightarrow>
                 st < 500 \<and> st \<noteq> 404 \<and> st \<noteq> 401 \<and> st \<noteq> 403) \<longrightarrow>
            code (createPriceError msg cs ctx) = API_INVALID_RESPONSE
            \<and> \<not> isRetryable (createPriceError msg cs ctx)))"
  apply (rule conjI, rule classify_timeout)
  apply (rule conjI, rule classify_connection)
  apply (rule conjI, rule classify_rate_limit)
  apply (rule classify_status)
  done

theorem createPriceError_first_match_witness:
  "timeout_marker ''Request timeout after 10000ms''
   \<and> getRetryDelay (createPriceError ''Request timeout after 10000ms'' None
         \<lparr>cc_operation = ''http_request'', cc_exchangeName = Some ''Binance''\<rparr>) = 2000
   \<and> \<not> timeout_marker ''connect ECONNREFUSED 10.0.0.1:443''
   \<and> connection_marker ''connect ECONNREFUSED 10.0.0.1:443''
   \<and> getRetryDelay (createPriceError ''connect ECONNREFUSED 10.0.0.1:443'' None
         \<lparr>cc_operation = ''http_request'', cc_exchangeName = Some ''Binance''\<rparr>) = 3000
   \<and> rate_limit_marker ''rate limit hit, Retry-After: 30''
   \<and> getRetryDelay (createPriceError ''rate limit hit, Retry-After: 30'' None
         \<lparr>cc_operation = ''http_request'', cc_exchangeName = Some ''Binance''\<rparr>) = 30000
   \<and> extractHttpStatus ''HTTP 503 Service Unavailable'' = Some 503
   \<and> code (createPriceError ''HTTP 503 Service Unavailable'' None
         \<lparr>cc_operation = ''http_request'', cc_exchangeName = Some ''Binance''\<rparr>) = API_SERVER_ERROR
   \<and> extractHttpStatus ''status: 403'' = Some 403
   \<and> \<not> isRetryable (createPriceError ''status: 403'' None
         \<lparr>cc_operation = ''http_request'', cc_exchangeName = Some ''Binance''\<rparr>)"
proof -
  let ?ctx = "\<lparr>cc_operation = ''http_request'', cc_exchangeName = Some ''Binance''\<rparr>"
  have t: "timeout_marker ''Request timeout after 10000ms''"
    by code_simp
  have c: "\<not> timeout_marker ''connect ECONNREFUSED 10.0.0.1:443''
           \<and> connection_marker ''connect ECONNREFUSED 10.0.0.1:443''"
    by code_simp
  have r: "\<not> timeout_marker ''rate limit hit, Retry-After: 30''
           \<and> \<not> connection_marker ''rate limit hit, Retry-After: 30''
           \<and> rate_limit_marker ''rate limit hit, Retry-After: 30''"
    by code_simp
  have ra: "extractRetryAfter ''rate limit hit, Retry-After: 30'' = Some 30"
    by code_simp
  have s: "\<not> timeout_marker ''HTTP 503 Service Unavailable''
           \<and> \<not> connection_marker ''HTTP 503 Service Unavailable''
           \<and> \<not> rate_limit_marker ''HTTP 503 Service Unavailable''"
    by code_simp
  have sa: "extractHttpStatus ''HTTP 503 Service Unavailable'' = Some 503"
    by code_simp
  have u: "\<not> timeout_marker ''status: 403''
           \<and> \<not> connection_marker ''status: 403''
           \<and> \<not> rate_limit_marker ''status: 403''"
    by code_simp
  have ua: "extractHttpStatus ''status: 403'' = Some 403"
    by code_simp
  note w1 = createPriceError_first_match
              [of "''Request timeout after 10000ms''" None ?ctx, THEN conjunct1, THEN mp, OF t]
  note w2 = createPriceError_first_match
              [of "''connect ECONNREFUSED 10.0.0.1:443''" None ?ctx,
               THEN conjunct2, THEN conjunct1, THEN mp, OF c]
  note w3 = createPriceError_first_match
              [of "''rate limit hit, Retry-After: 30''" None ?ctx,
               THEN conjunct2, THEN conjunct2, THEN conjunct1, THEN mp, OF r]
  note w4 = createPriceError_first_match
              [of "''HTTP 503 Service Unavailable''" None ?ctx,
               THEN conjunct2, THEN conjunct2, THEN conjunct2, THEN mp, OF s]
  note w5 = createPriceError_first_match
              [of "''status: 403''" None ?ctx,
               THEN conjunct2, THEN conjunct2, THEN conjunct2, THEN mp, OF u]
  have d3: "getRetryDelay (createPriceError ''rate limit hit, Retry-After: 30'' None ?ctx) = 30000"
    using w3 by (simp add: ra)
  have d4: "code (createPriceError ''HTTP 503 Service Unavailable'' None ?ctx) = API_SERVER_ERROR"
    using w4 sa by simp
  have d5: "\<not> isRetryable (createPriceError ''status: 403'' None ?ctx)"
    using w5 ua by simp
  from t c r sa ua w1 w2 d3 d4 d5 show ?thesis by simp
qed

text \<open>
  The claim as written fails where the parsed retry-after value is zero: the value is
  present, yet the delay is 5000 and not zero.
\<close>

theorem rate_limit_zero_retry_after:
  "\<not> timeout_marker ''rate limit, retry-after: 0''
   \<and> \<not> connection_marker ''rate limit, retry-after: 0''
   \<and> rate_limit_marker ''rate limit, retry-after: 0''
   \<and> extractRetryAfter ''rate limit, retry-after: 0'' = Some 0
   \<and> getRetryDelay (createPriceError ''rate limit, retry-after: 0'' None
        \<lparr>cc_operation = ''http_request'', cc_exchangeName = Some ''Binance''\<rparr>) = 5000
   \<and> getRetryDelay (createPriceError ''rate limit, retry-after: 0'' None
        \<lparr>cc_operation = ''http_request'', cc_exchangeName = Some ''Binance''\<rparr>) \<noteq> 0 * 1000"
  by code_simp

section \<open>The retry helper\<close>

lemma retry_schedule_step:
  "a < k \<Longrightarrow> retry_schedule p a k
     = Fetch a # Backoff (retryDelay p * 2 ^ (a - 1)) # retry_schedule p (a + 1) k"
  by (simp add: retry_schedule_def upt_conv_Cons)

lemma fetch_from_success:
  assumes "a \<le> k" "k \<le> retryAttempts p" "\<forall>j. a \<le> j \<and> j < k \<longrightarrow> isl (fetchFn j)"
    "fetchFn k = Inr v"
  shows "fetchWithRetry_from p fetchFn a prev = (Inr v, retry_schedule p a k)"
  using assms
proof (induction "k - a" arbitrary: a prev)
  case 0
  then have "a = k" by simp
  with 0 show ?case
    by (subst fetchWithRetry_from.simps) (simp add: retry_schedule_def)
next
  case (Suc n)
  then have lt: "a < k" by simp
  with Suc.prems obtain e where e: "fetchFn a = Inl e"
    by (metis isl_def le_refl)
  have ih: "fetchWithRetry_from p fetchFn (a + 1) (Some e) = (Inr v, retry_schedule p (a + 1) k)"
    using Suc.hyps Suc.prems lt by (intro Suc.hyps(1)) auto
  show ?case
    using lt Suc.prems(2) e ih
    by (subst fetchWithRetry_from.simps) (simp add: retry_schedule_step)
qed

lemma fetch_from_exhausted:
  assumes "a \<le> n" "n = retryAttempts p" "\<forall>j. a \<le> j \<and> j \<le> n \<longrightarrow> isl (fetchFn j)"
  shows "fetchWithRetry_from p fetchFn a prev = (Inl (projl (fetchFn n)), retry_schedule p a n)"
  using assms
proof (induction "n - a" arbitrary: a prev)
  case 0
  then have an: "a = n" by simp
  with 0 obtain e where e: "fetchFn n = Inl e"
    by (metis isl_def le_refl)
  have next_: "fetchWithRetry_from p fetchFn (n + 1) (Some e) = (Inl e, [])"
    using 0 by (subst fetchWithRetry_from.simps) simp
  show ?case
    using an 0 e next_
    by (subst fetchWithRetry_from.simps) (simp add: retry_schedule_def)
next
  case (Suc m)
  then have lt: "a < n" by simp
  with Suc.prems obtain e where e: "fetchFn a = Inl e"
    by (metis isl_def le_refl less_imp_le)
  have ih: "fetchWithRetry_from p fetchFn (a + 1) (Some e)
              = (Inl (projl (fetchFn n)), retry_schedule p (a + 1) n)"
    using Suc.hyps Suc.prems lt by (intro Suc.hyps(1)) auto
  show ?case
    using lt Suc.prems(2) e ih
    by (subst fetchWithRetry_from.simps) (simp add: retry_schedule_step)
qed

lemma fetch_from_count:
  "length (filter is_fetch (snd (fetchWithRetry_from p fetchFn a prev))) \<le> retryAttempts p + 1 - a"
proof (induction p fetchFn a prev rule: fetchWithRetry_from.induct)
  case (1 p fetchFn attempt lastError)
  show ?case
  proof (cases "attempt \<le> retryAttempts p")
    case False
    then show ?thesis by (subst fetchWithRetry_from.simps) simp
  next
    case True
    show ?thesis
    proof (cases "fetchFn attempt")
      case (Inr v)
      with True show ?thesis by (subst fetchWithRetry_from.simps) simp
    next
      case (Inl e)
      with True 1 have "length (filter is_fetch (snd (fetchWithRetry_from p fetchFn (attempt + 1) (Some e))))
                        \<le> retryAttempts p + 1 - (attempt + 1)" by simp
      with True Inl show ?thesis by (subst fetchWithRetry_from.simps) (simp add: Let_def)
    qed
  qed
qed


text \<open>
  C7. The retry helper makes at most \<open>retryAttempts\<close> calls. It returns the result of the
  first call that succeeds, and what it did until then is: call, sleep
  \<open>retryDelay * 2 ^ (attempt - 1)\<close>, call, and so on, with no sleep before the first call
  and none after the last. When every call fails, the error of the last call is thrown,
  after \<open>retryAttempts\<close> calls with the same sleeps between them. So a fetch that fails
  twice and then returns a value is called three times, with the sleeps \<open>retryDelay\<close> and
  \<open>2 * retryDelay\<close> between the calls, and that value is returned.
\<close>

theorem fetchWithRetry_spec:
  "(\<forall>k v. 1 \<le> k \<and> k \<le> retryAttempts p \<and> (\<forall>j. 1 \<le> j \<and> j < k \<longrightarrow> isl (fetchFn j))
           \<and> fetchFn k = Inr v
        \<longrightarrow> fetchWithRetry p fetchFn = (Inr v, retry_schedule p 1 k))
   \<and> (\<forall>e. 1 \<le> retryAttempts p \<and> (\<forall>j. 1 \<le> j \<and> j < retryAttempts p \<longrightarrow> isl (fetchFn j))
           \<and> fetchFn (retryAttempts p) = Inl e
        \<longrightarrow> fetchWithRetry p fetchFn = (Inl e, retry_schedule p 1 (retryAttempts p)))
   \<and> length (filter is_fetch (snd (fetchWithRetry p fetchFn))) \<le> retryAttempts p
   \<and> (\<forall>e1 e2 v. 3 \<le> retryAttempts p \<and> fetchFn 1 = Inl e1 \<and> fetchFn 2 = Inl e2
           \<and> fetchFn 3 = Inr v
        \<longrightarrow> fetchWithRetry p fetchFn =
              (Inr v, [Fetch 1, Backoff (retryDelay p), Fetch 2, Backoff (retryDelay p * 2),
                       Fetch 3]))"
proof -
  have first_success: "fetchWithRetry p fetchFn = (Inr v, retry_schedule p 1 k)"
    if "1 \<le> k \<and> k \<le> retryAttempts p \<and> (\<forall>j. 1 \<le> j \<and> j < k \<longrightarrow> isl (fetchFn j))
        \<and> fetchFn k = Inr v" for k v
    using that fetch_from_success [of 1 k p fetchFn v None]
    by (simp add: fetchWithRetry_def)
  have exhausted: "fetchWithRetry p fetchFn = (Inl e, retry_schedule p 1 (retryAttempts p))"
    if h: "1 \<le> retryAttempts p \<and> (\<forall>j. 1 \<le> j \<and> j < retryAttempts p \<longrightarrow> isl (fetchFn j))
        \<and> fetchFn (retryAttempts p) = Inl e" for e
  proof -
    have "\<forall>j. 1 \<le> j \<and> j \<le> retryAttempts p \<longrightarrow> isl (fetchFn j)"
      using h by (metis isl_def le_neq_implies_less)
    with h fetch_from_exhausted [of 1 "retryAttempts p" p fetchFn None]
    show ?thesis by (simp add: fetchWithRetry_def)
  qed
  have count: "length (filter is_fetch (snd (fetchWithRetry p fetchFn))) \<le> retryAttempts p"
    using fetch_from_count [of p fetchFn 1 None] by (simp add: fetchWithRetry_def)
  have example: "fetchWithRetry p fetchFn =
              (Inr v, [Fetch 1, Backoff (retryDelay p), Fetch 2, Backoff (retryDelay p * 2),
                       Fetch 3])"
    if h: "3 \<le> retryAttempts p \<and> fetchFn 1 = Inl e1 \<and> fetchFn 2 = Inl e2 \<and> fetchFn 3 = Inr v"
    for e1 e2 v
  proof -
    have "\<forall>j. 1 \<le> j \<and> j < 3 \<longrightarrow> isl (fetchFn j)"
    proof (intro allI impI)
      fix j :: nat assume "1 \<le> j \<and> j < 3"
      then have "j = 1 \<or> j = 2" by arith
      with h show "isl (fetchFn j)" by auto
    qed
    with h first_success [of 3 v]
    have "fetchWithRetry p fetchFn = (Inr v, retry_schedule p 1 3)" by simp
    moreover have "[1..<3] = [1, 2::nat]" by (simp add: upt_rec)
    ultimately show ?thesis by (simp add: retry_schedule_def)
  qed
  from first_success exhausted count example show ?thesis by blast
qed

theorem fetchWithRetry_spec_witness:
  "fetchWithRetry demo_provider flaky_fetch
     = (Inr (Fin (21 / 2)), [Fetch 1, Backoff 1000, Fetch 2, Backoff 2000, Fetch 3])
   \<and> fetchWithRetry demo_provider failing_fetch
     = (Inl \<lparr>ctor_name = ''Error'', err_message = ''failure 3''\<rparr>,
        [Fetch 1, Backoff 1000, Fetch 2, Backoff 2000, Fetch 3])"
proof -
  have a: "3 \<le> retryAttempts demo_provider \<and> flaky_fetch 1 = Inl transient_error
           \<and> flaky_fetch 2 = Inl transient_error \<and> flaky_fetch 3 = Inr (Fin (21 / 2))"
    by (simp add: demo_provider_def flaky_fetch_def)
  have b: "1 \<le> retryAttempts demo_provider
           \<and> (\<forall>j. 1 \<le> j \<and> j < retryAttempts demo_provider \<longrightarrow> isl (failing_fetch j))
           \<and> failing_fetch (retryAttempts demo_provider)
               = Inl \<lparr>ctor_name = ''Error'', err_message = ''failure 3''\<rparr>"
    by (simp add: demo_provider_def failing_fetch_def)
  have sched: "retry_schedule demo_provider 1 (retryAttempts demo_provider)
                 = [Fetch 1, Backoff 1000, Fetch 2, Backoff 2000, Fetch 3]"
    by (simp add: retry_schedule_def demo_provider_def upt_rec)
  from fetchWithRetry_spec [of demo_provider flaky_fetch, THEN conjunct2, THEN conjunct2,
                            THEN conjunct2, THEN spec, THEN spec, THEN spec, THEN mp, OF a]
  have w1: "fetchWithRetry demo_provider flaky_fetch
     = (Inr (Fin (21 / 2)), [Fetch 1, Backoff 1000, Fetch 2, Backoff 2000, Fetch 3])"
    by (simp add: demo_provider_def)
  note h2 = fetchWithRetry_spec [of demo_provider failing_fetch, THEN conjunct2, THEN conjunct1,
                                 THEN spec, THEN mp, OF b]
  have w2: "fetchWithRetry demo_provider failing_fetch
     = (Inl \<lparr>ctor_name = ''Error'', err_message = ''failure 3''\<rparr>,
        [Fetch 1, Backoff 1000, Fetch 2, Backoff 2000, Fetch 3])"
    using h2 sched by simp
  from w1 w2 show ?thesis by simp
qed

section \<open>The rounds of the aggregator\<close>

lemma round_schedule_step:
  "a < n \<Longrightarrow> round_schedule a n = Round a # Pause (2000 * a) # round_schedule (a + 1) n"
  by (simp add: round_schedule_def upt_conv_Cons)

lemma round_schedule_count:
  "a \<le> n \<Longrightarrow> length (filter is_round (round_schedule a n)) = n + 1 - a"
proof (induction "n - a" arbitrary: a)
  case 0
  then show ?case by (simp add: round_schedule_def)
next
  case (Suc m)
  then have "a < n" by simp
  with Suc show ?case by (simp add: round_schedule_step)
qed

lemma rounds_from_all_empty:
  assumes "a \<le> n" "n = agg_maxRetries agg"
    "\<forall>k. a \<le> k \<and> k \<le> n \<longrightarrow> filter success (fetchPricesWithTimeout ts agg deadline k) = []"
  shows "rounds_from ts agg deadline a
           = (Inl \<lparr>ctor_name = ''Error'', err_message = exhausted_message n\<rparr>, round_schedule a n)"
  using assms
proof (induction "n - a" arbitrary: a)
  case 0
  then have an: "a = n" by simp
  have stop: "rounds_from ts agg deadline (n + 1)
                = (Inl \<lparr>ctor_name = ''Error'', err_message = exhausted_message n\<rparr>, [])"
    using 0 by (subst rounds_from.simps) (simp add: exhausted_message_def)
  have "filter success (fetchPricesWithTimeout ts agg deadline n) = []"
    using 0 an by simp
  with an 0 stop show ?case
    by (subst rounds_from.simps) (simp add: round_schedule_def)
next
  case (Suc m)
  then have lt: "a < n" by simp
  have ih: "rounds_from ts agg deadline (a + 1)
              = (Inl \<lparr>ctor_name = ''Error'', err_message = exhausted_message n\<rparr>,
                 round_schedule (a + 1) n)"
    using Suc.hyps Suc.prems lt by (intro Suc.hyps(1)) auto
  have "filter success (fetchPricesWithTimeout ts agg deadline a) = []"
    using Suc.prems lt by simp
  with lt Suc.prems(2) ih show ?case
    by (subst rounds_from.simps) (simp add: round_schedule_step)
qed

text \<open>
  C2. When the aggregator has providers and every round gives no successful price,
  \<open>getAggregatedHivePrice\<close> runs the rounds 1 to \<open>maxRetries\<close> and no other, sleeps
  \<open>2000 * k\<close> after round \<open>k\<close> for every round but the last, and then throws one error
  whose message holds the number \<open>maxRetries\<close>. With the value 3 of the class this is:
  round 1, 2000 ms, round 2, 4000 ms, round 3, and the message speaks of 3 attempts.
\<close>

theorem getAggregatedHivePrice_exhausted:
  "providers agg \<noteq> [] \<and> 1 \<le> agg_maxRetries agg
   \<and> (\<forall>k. 1 \<le> k \<and> k \<le> agg_maxRetries agg \<longrightarrow>
          filter success (fetchPricesWithTimeout ts agg deadline k) = [])
   \<longrightarrow>
     getAggregatedHivePrice ts agg deadline
       = (Inl \<lparr>ctor_name = ''Error'', err_message = exhausted_message (agg_maxRetries agg)\<rparr>,
          round_schedule 1 (agg_maxRetries agg))
     \<and> length (filter is_round (snd (getAggregatedHivePrice ts agg deadline))) = agg_maxRetries agg
     \<and> (agg_maxRetries agg = 3 \<longrightarrow>
          snd (getAggregatedHivePrice ts agg deadline)
            = [Round 1, Pause 2000, Round 2, Pause 4000, Round 3]
          \<and> err_message (projl (fst (getAggregatedHivePrice ts agg deadline)))
            = ''Failed to obtain HIVE price after 3 attempts. All exchanges failed or timed out.'')"
proof (intro impI)
  assume h: "providers agg \<noteq> [] \<and> 1 \<le> agg_maxRetries agg
   \<and> (\<forall>k. 1 \<le> k \<and> k \<le> agg_maxRetries agg \<longrightarrow>
          filter success (fetchPricesWithTimeout ts agg deadline k) = [])"
  have res: "getAggregatedHivePrice ts agg deadline
       = (Inl \<lparr>ctor_name = ''Error'', err_message = exhausted_message (agg_maxRetries agg)\<rparr>,
          round_schedule 1 (agg_maxRetries agg))"
    using h rounds_from_all_empty [of 1 "agg_maxRetries agg" agg ts deadline]
    by (simp add: getAggregatedHivePrice_def)
  have cnt: "length (filter is_round (snd (getAggregatedHivePrice ts agg deadline)))
               = agg_maxRetries agg"
    using h round_schedule_count [of 1 "agg_maxRetries agg"] by (simp add: res)
  have three: "round_schedule 1 3 = [Round 1, Pause 2000, Round 2, Pause 4000, Round 3]"
    by (simp add: round_schedule_def upt_rec)
  have msg: "exhausted_message 3
               = ''Failed to obtain HIVE price after 3 attempts. All exchanges failed or timed out.''"
    by (simp add: exhausted_message_def)
  show "getAggregatedHivePrice ts agg deadline
       = (Inl \<lparr>ctor_name = ''Error'', err_message = exhausted_message (agg_maxRetries agg)\<rparr>,
          round_schedule 1 (agg_maxRetries agg))
     \<and> length (filter is_round (snd (getAggregatedHivePrice ts agg deadline))) = agg_maxRetries agg
     \<and> (agg_maxRetries agg = 3 \<longrightarrow>
          snd (getAggregatedHivePrice ts agg deadline)
            = [Round 1, Pause 2000, Round 2, Pause 4000, Round 3]
          \<and> err_message (projl (fst (getAggregatedHivePrice ts agg deadline)))
            = ''Failed to obtain HIVE price after 3 attempts. All exchanges failed or timed out.'')"
    using res cnt three msg by simp
qed

theorem getAggregatedHivePrice_exhausted_witness:
  "providers failing_aggregator \<noteq> [] \<and> agg_maxRetries failing_aggregator = 3
   \<and> getAggregatedHivePrice demo_toString failing_aggregator second_round_late
       = (Inl \<lparr>ctor_name = ''Error'',
               err_message = ''Failed to obtain HIVE price after 3 attempts. All exchanges failed or timed out.''\<rparr>,
          [Round 1, Pause 2000, Round 2, Pause 4000, Round 3])"
proof -
  have empty: "\<forall>k. 1 \<le> k \<and> k \<le> agg_maxRetries failing_aggregator \<longrightarrow>
          filter success (fetchPricesWithTimeout demo_toString failing_aggregator second_round_late k) = []"
    by (simp add: fetchPricesWithTimeout_def mapProvidersToExchangePrices_def exchangePriceOf_def
          failing_aggregator_def throwing_provider_def nan_provider_def Let_def)
  have pre: "providers failing_aggregator \<noteq> [] \<and> 1 \<le> agg_maxRetries failing_aggregator
   \<and> (\<forall>k. 1 \<le> k \<and> k \<le> agg_maxRetries failing_aggregator \<longrightarrow>
          filter success (fetchPricesWithTimeout demo_toString failing_aggregator second_round_late k) = [])"
    using empty by (simp add: failing_aggregator_def)
  note w = getAggregatedHivePrice_exhausted
             [of failing_aggregator demo_toString second_round_late, THEN mp, OF pre]
  have m: "agg_maxRetries failing_aggregator = 3" by (simp add: failing_aggregator_def)
  have "getAggregatedHivePrice demo_toString failing_aggregator second_round_late
       = (Inl \<lparr>ctor_name = ''Error'',
               err_message = ''Failed to obtain HIVE price after 3 attempts. All exchanges failed or timed out.''\<rparr>,
          [Round 1, Pause 2000, Round 2, Pause 4000, Round 3])"
    using w m by (simp add: exhausted_message_def round_schedule_def upt_rec)
  with m show ?thesis by (simp add: failing_aggregator_def)
qed

section \<open>The per-provider outcomes\<close>

lemma detailed_nth:
  "i < length ps \<Longrightarrow> mapProvidersToDetailedPrices n ps ! i
     = (case detailedPriceOf n (ps ! i) of Fulfilled v \<Rightarrow> v | Rejected \<Rightarrow> promise_rejected)"
  by (simp add: mapProvidersToDetailedPrices_def)

lemma detailedPriceOf_entry:
  assumes "e = (case detailedPriceOf n po of Fulfilled v \<Rightarrow> v | Rejected \<Rightarrow> promise_rejected)"
  shows "(case po of
        None \<Rightarrow> \<not> success e \<and> error e = Some ''Promise rejected'' \<and> price e = Fin 0
      | Some p \<Rightarrow>
          (case getHivePrice p n of
             Inl t \<Rightarrow> \<not> success e \<and> error e = Some (thrown_message t) \<and> price e = Fin 0
                      \<and> exchange e = exchangeName p
           | Inr pr \<Rightarrow> success e \<and> price e = pr \<and> error e = None
                       \<and> exchange e = exchangeName p))"
  using assms
  by (simp add: detailedPriceOf_def promise_rejected_def split: option.splits sum.splits)

text \<open>
  C8. For every list of providers \<open>getDetailedPrices\<close> is fulfilled, never rejected, and
  its list has one entry per provider, in order: the entry of a provider whose fetch
  returns holds that very price with \<open>success = true\<close>, and the entry of a provider whose
  fetch throws (or of a list element that is no provider) has \<open>success = false\<close>, the
  price 0 and an error message. In particular, when every provider fails, every entry has
  \<open>success = false\<close> and an error message. Nothing is averaged.
\<close>

theorem getDetailedPrices_never_throws:
  "\<exists>entries. getDetailedPrices agg n = Fulfilled entries
     \<and> length entries = length (providers agg)
     \<and> (\<forall>i. i < length (providers agg) \<longrightarrow>
          (case providers agg ! i of
             None \<Rightarrow> \<not> success (entries ! i) \<and> error (entries ! i) = Some ''Promise rejected''
                     \<and> price (entries ! i) = Fin 0
           | Some p \<Rightarrow>
               (case getHivePrice p n of
                  Inl t \<Rightarrow> \<not> success (entries ! i) \<and> error (entries ! i) = Some (thrown_message t)
                           \<and> price (entries ! i) = Fin 0 \<and> exchange (entries ! i) = exchangeName p
                | Inr pr \<Rightarrow> success (entries ! i) \<and> price (entries ! i) = pr
                            \<and> error (entries ! i) = None
                            \<and> exchange (entries ! i) = exchangeName p)))
     \<and> ((\<forall>i. i < length (providers agg) \<longrightarrow>
            (case providers agg ! i of None \<Rightarrow> True | Some p \<Rightarrow> isl (getHivePrice p n)))
         \<longrightarrow> (\<forall>i. i < length entries \<longrightarrow> \<not> success (entries ! i) \<and> error (entries ! i) \<noteq> None))"
proof -
  let ?entries = "mapProvidersToDetailedPrices n (providers agg)"
  have a: "getDetailedPrices agg n = Fulfilled ?entries"
    by (simp add: getDetailedPrices_def)
  have b: "length ?entries = length (providers agg)"
    by (simp add: mapProvidersToDetailedPrices_def)
  have c: "(case providers agg ! i of
             None \<Rightarrow> \<not> success (?entries ! i) \<and> error (?entries ! i) = Some ''Promise rejected''
                     \<and> price (?entries ! i) = Fin 0
           | Some p \<Rightarrow>
               (case getHivePrice p n of
                  Inl t \<Rightarrow> \<not> success (?entries ! i) \<and> error (?entries ! i) = Some (thrown_message t)
                           \<and> price (?entries ! i) = Fin 0 \<and> exchange (?entries ! i) = exchangeName p
                | Inr pr \<Rightarrow> success (?entries ! i) \<and> price (?entries ! i) = pr
                            \<and> error (?entries ! i) = None
                            \<and> exchange (?entries ! i) = exchangeName p))"
    if "i < length (providers agg)" for i
    by (rule detailedPriceOf_entry) (rule detailed_nth [OF that])
  have d: "\<not> success (?entries ! i) \<and> error (?entries ! i) \<noteq> None"
    if all: "\<forall>i. i < length (providers agg) \<longrightarrow>
            (case providers agg ! i of None \<Rightarrow> True | Some p \<Rightarrow> isl (getHivePrice p n))"
      and i: "i < length ?entries" for i
  proof -
    from i b have i': "i < length (providers agg)" by simp
    from all i' have "case providers agg ! i of None \<Rightarrow> True | Some p \<Rightarrow> isl (getHivePrice p n)"
      by blast
    with c [OF i'] show ?thesis
      by (auto split: option.splits sum.splits)
  qed
  from a b c d show ?thesis by blast
qed

theorem getDetailedPrices_never_throws_witness:
  "getDetailedPrices broken_aggregator 1
     = Fulfilled [\<lparr>exchange = ''Binance'', price = Fin 0, success = False,
                   error = Some ''Failed to fetch any HIVE prices from Binance''\<rparr>,
                  \<lparr>exchange = ''Unknown'', price = Fin 0, success = False,
                   error = Some ''Promise rejected''\<rparr>]"
proof -
  from getDetailedPrices_never_throws [of broken_aggregator 1]
  obtain entries where e: "getDetailedPrices broken_aggregator 1 = Fulfilled entries"
    and len: "length entries = length (providers broken_aggregator)"
    by blast
  have "entries = mapProvidersToDetailedPrices 1 (providers broken_aggregator)"
    using e by (simp add: getDetailedPrices_def)
  then have "entries = [\<lparr>exchange = ''Binance'', price = Fin 0, success = False,
                   error = Some ''Failed to fetch any HIVE prices from Binance''\<rparr>,
                  \<lparr>exchange = ''Unknown'', price = Fin 0, success = False,
                   error = Some ''Promise rejected''\<rparr>]"
    by (simp add: mapProvidersToDetailedPrices_def detailedPriceOf_def broken_aggregator_def
          throwing_provider_def promise_rejected_def thrown_message_def)
  with e show ?thesis by simp
qed

lemma exchangePriceOf_entry:
  assumes "e = (case exchangePriceOf ts n po of Fulfilled v \<Rightarrow> v | Rejected \<Rightarrow> promise_rejected)"
  shows "(success e \<longrightarrow> isValidPrice (JNumber (price e)))
     \<and> (\<not> success e \<longrightarrow> price e = Fin 0 \<and> error e \<noteq> None)"
  using assms
  by (simp add: exchangePriceOf_def promise_rejected_def Let_def split: option.splits sum.splits)

text \<open>
  C9. Every entry of the list that a round produces satisfies: if \<open>success\<close> is true, the
  price passed \<open>isValidPrice\<close>, so it is a number greater than 0 and not NaN; if \<open>success\<close>
  is false, the price is 0 and an error message is present. Hence every price among the
  successful entries, which are the ones the aggregator averages, is greater than 0 and
  not NaN.
\<close>

theorem round_entries_invariant:
  "(\<forall>e \<in> set (mapProvidersToExchangePrices ts n ps).
      (success e \<longrightarrow> isValidPrice (JNumber (price e)) \<and> js_gt (price e) (Fin 0)
                      \<and> \<not> js_isNaN (price e))
      \<and> (\<not> success e \<longrightarrow> price e = Fin 0 \<and> error e \<noteq> None))
   \<and> (\<forall>e \<in> set (fetchPricesWithTimeout ts agg deadline n).
      (success e \<longrightarrow> isValidPrice (JNumber (price e)) \<and> js_gt (price e) (Fin 0)
                      \<and> \<not> js_isNaN (price e))
      \<and> (\<not> success e \<longrightarrow> price e = Fin 0 \<and> error e \<noteq> None))
   \<and> (\<forall>e \<in> set (filter success (fetchPricesWithTimeout ts agg deadline n)).
        js_gt (price e) (Fin 0) \<and> \<not> js_isNaN (price e))"
proof -
  have m: "(success e \<longrightarrow> isValidPrice (JNumber (price e)) \<and> js_gt (price e) (Fin 0)
                      \<and> \<not> js_isNaN (price e))
      \<and> (\<not> success e \<longrightarrow> price e = Fin 0 \<and> error e \<noteq> None)"
    if "e \<in> set (mapProvidersToExchangePrices ts n qs)" for e qs
  proof -
    from that obtain po where
      "e = (case exchangePriceOf ts n po of Fulfilled v \<Rightarrow> v | Rejected \<Rightarrow> promise_rejected)"
      by (auto simp: mapProvidersToExchangePrices_def)
    from exchangePriceOf_entry [OF this] show ?thesis by simp
  qed
  have f: "(success e \<longrightarrow> isValidPrice (JNumber (price e)) \<and> js_gt (price e) (Fin 0)
                      \<and> \<not> js_isNaN (price e))
      \<and> (\<not> success e \<longrightarrow> price e = Fin 0 \<and> error e \<noteq> None)"
    if "e \<in> set (fetchPricesWithTimeout ts agg deadline n)" for e
    using that m [of e "providers agg"]
    by (cases "deadline n") (simp_all add: fetchPricesWithTimeout_def)
  have g: "js_gt (price e) (Fin 0) \<and> \<not> js_isNaN (price e)"
    if "e \<in> set (filter success (fetchPricesWithTimeout ts agg deadline n))" for e
    using that f [of e] by simp
  from m f g show ?thesis by blast
qed

theorem round_entries_invariant_witness:
  "mapProvidersToExchangePrices demo_toString 1 mixed_providers
     = [\<lparr>exchange = ''Huobi'', price = Fin (1 / 4), success = True, error = None\<rparr>,
        \<lparr>exchange = ''MEXC'', price = Fin 0, success = False,
         error = Some ''Invalid price received: ?''\<rparr>,
        \<lparr>exchange = ''Unknown'', price = Fin 0, success = False, error = Some ''Promise rejected''\<rparr>,
        \<lparr>exchange = ''Binance'', price = Fin 0, success = False,
         error = Some ''Failed to fetch any HIVE prices from Binance''\<rparr>]
   \<and> isValidPrice (JNumber (Fin (1 / 4)))"
proof -
  have l: "mapProvidersToExchangePrices demo_toString 1 mixed_providers
     = [\<lparr>exchange = ''Huobi'', price = Fin (1 / 4), success = True, error = None\<rparr>,
        \<lparr>exchange = ''MEXC'', price = Fin 0, success = False,
         error = Some ''Invalid price received: ?''\<rparr>,
        \<lparr>exchange = ''Unknown'', price = Fin 0, success = False, error = Some ''Promise rejected''\<rparr>,
        \<lparr>exchange = ''Binance'', price = Fin 0, success = False,
         error = Some ''Failed to fetch any HIVE prices from Binance''\<rparr>]"
    by (simp add: mapProvidersToExchangePrices_def exchangePriceOf_def mixed_providers_def
          quarter_provider_def nan_provider_def throwing_provider_def promise_rejected_def
          thrown_message_def demo_toString_def Let_def)
  from round_entries_invariant [of demo_toString 1 mixed_providers, THEN conjunct1]
  have "isValidPrice (JNumber (Fin (1 / 4)))"
    unfolding l by simp
  with l show ?thesis by simp
qed

section \<open>The final price\<close>




lemma applyWeights_all_success:
  "\<forall>e \<in> set eps. success e \<Longrightarrow> filter success (applyWeights agg eps) = applyWeights agg eps"
  by (simp add: applyWeights_def filter_map o_def)





section \<open>The total weight\<close>

lemma attached_weight_positive:
  assumes "\<forall>k c. providersConfig agg k = Some c \<longrightarrow> \<not> js_gt (Fin 0) (cfg_weight c)"
    and "wp \<in> set (applyWeights agg eps)"
  shows "js_gt (weight wp) (Fin 0)"
proof -
  from assms(2) obtain ep :: ExchangePrice where
    w: "weight wp = (case providersConfig agg (toLowerCase (exchange ep)) of
                       None \<Rightarrow> Fin 1
                     | Some config \<Rightarrow> if js_truthy (cfg_weight config) then cfg_weight config
                                      else Fin 1)"
    by (auto simp: applyWeights_def)
  show ?thesis
  proof (cases "providersConfig agg (toLowerCase (exchange ep))")
    case None
    with w show ?thesis by simp
  next
    case (Some c)
    with assms(1) have nn: "\<not> js_gt (Fin 0) (cfg_weight c)" by blast
    show ?thesis
      using w Some nn by (cases "cfg_weight c") auto
  qed
qed

lemma attached_weight_nonzero:
  "wp \<in> set (applyWeights agg eps) \<Longrightarrow> weight wp \<noteq> Fin 0 \<and> weight wp \<noteq> NaN"
proof -
  assume "wp \<in> set (applyWeights agg eps)"
  then obtain ep :: ExchangePrice where
    w: "weight wp = (case providersConfig agg (toLowerCase (exchange ep)) of
                       None \<Rightarrow> Fin 1
                     | Some config \<Rightarrow> if js_truthy (cfg_weight config) then cfg_weight config
                                      else Fin 1)"
    by (auto simp: applyWeights_def)
  show ?thesis
  proof (cases "providersConfig agg (toLowerCase (exchange ep))")
    case None
    with w show ?thesis by simp
  next
    case (Some c)
    with w show ?thesis by (cases "cfg_weight c") auto
  qed
qed

lemma js_add_positive:
  "js_le (Fin 0) acc \<Longrightarrow> js_gt w (Fin 0) \<Longrightarrow> js_gt (js_add acc w) (Fin 0)"
  by (cases acc; cases w) simp_all

lemma js_gt_le: "js_gt x (Fin 0) \<Longrightarrow> js_le (Fin 0) x"
  by (cases x) simp_all

lemma foldl_positive:
  "js_le (Fin 0) acc \<Longrightarrow> \<forall>x \<in> set xs. js_gt (f x) (Fin 0) \<Longrightarrow> xs \<noteq> [] \<Longrightarrow>
     js_gt (foldl (\<lambda>sum x. js_add sum (f x)) acc xs) (Fin 0)"
proof (induction xs arbitrary: acc)
  case Nil
  then show ?case by simp
next
  case (Cons x xs)
  have step: "js_gt (js_add acc (f x)) (Fin 0)"
    using Cons.prems by (simp add: js_add_positive)
  show ?case
  proof (cases xs)
    case Nil
    with step show ?thesis by simp
  next
    case (Cons y ys)
    with Cons.IH [of "js_add acc (f x)"] Cons.prems step show ?thesis
      by (simp add: js_gt_le)
  qed
qed

text \<open>
  C10, as amended. The weight attached to a price is never zero: a configured weight of 0
  (or NaN), like a missing one, is replaced by 1. When no configured weight is negative,
  the total weight of a non-empty list of successful prices is greater than zero, so the
  weighted-average calculator does not take its branch for a zero total, and the
  final-price calculation returns a number.
\<close>

theorem total_weight_positive:
  "(\<forall>wp \<in> set (applyWeights agg eps). weight wp \<noteq> Fin 0 \<and> weight wp \<noteq> NaN)
   \<and> ((\<forall>k c. providersConfig agg k = Some c \<longrightarrow> \<not> js_gt (Fin 0) (cfg_weight c))
       \<and> eps \<noteq> [] \<and> (\<forall>e \<in> set eps. success e)
       \<longrightarrow> js_gt (foldl (\<lambda>sum p. js_add sum (weight p)) (Fin 0)
                       (filter success (applyWeights agg eps))) (Fin 0)
           \<and> (\<exists>v. calculateWeightedAverage (applyWeights agg eps) = Inr v)
           \<and> (\<exists>v. calculateFinalPrice agg eps = Inr v))"
proof (intro conjI impI ballI)
  fix wp assume "wp \<in> set (applyWeights agg eps)"
  then show "weight wp \<noteq> Fin 0" "weight wp \<noteq> NaN"
    using attached_weight_nonzero by blast+
next
  assume h: "(\<forall>k c. providersConfig agg k = Some c \<longrightarrow> \<not> js_gt (Fin 0) (cfg_weight c))
       \<and> eps \<noteq> [] \<and> (\<forall>e \<in> set eps. success e)"
  let ?ws = "applyWeights agg eps"
  have all_succ: "filter success ?ws = ?ws"
    using h by (simp add: applyWeights_all_success)
  have ws_ne: "?ws \<noteq> []"
    using h by (simp add: applyWeights_def)
  have pos: "\<forall>wp \<in> set ?ws. js_gt (weight wp) (Fin 0)"
    using h attached_weight_positive by blast
  have total: "js_gt (foldl (\<lambda>sum p. js_add sum (weight p)) (Fin 0) ?ws) (Fin 0)"
    using pos ws_ne by (intro foldl_positive) simp_all
  then have nz: "\<not> js_eq (foldl (\<lambda>sum p. js_add sum (weight p)) (Fin 0) ?ws) (Fin 0)"
    by (cases "foldl (\<lambda>sum p. js_add sum (weight p)) (Fin 0) ?ws") simp_all
  show "js_gt (foldl (\<lambda>sum p. js_add sum (weight p)) (Fin 0) (filter success ?ws)) (Fin 0)"
    using total by (simp add: all_succ)
  show wa: "\<exists>v. calculateWeightedAverage ?ws = Inr v"
    using ws_ne nz by (simp add: calculateWeightedAverage_def all_succ Let_def)
  show "\<exists>v. calculateFinalPrice agg eps = Inr v"
    using h wa by (simp add: calculateFinalPrice_def Let_def)
qed

theorem total_weight_positive_witness:
  "map weight (applyWeights zero_binance nine_and_twelve) = [Fin 1, Fin 2]
   \<and> calculateFinalPrice zero_binance nine_and_twelve = Inr (Fin 11)"
proof -
  have cfg: "\<forall>k c. providersConfig zero_binance k = Some c \<longrightarrow> \<not> js_gt (Fin 0) (cfg_weight c)"
    by (simp add: zero_binance_def aggregator_with_def weight_config_def)
  have pre: "(\<forall>k c. providersConfig zero_binance k = Some c \<longrightarrow> \<not> js_gt (Fin 0) (cfg_weight c))
       \<and> nine_and_twelve \<noteq> [] \<and> (\<forall>e \<in> set nine_and_twelve. success e)"
    using cfg by (simp add: nine_and_twelve_def)
  from total_weight_positive [of zero_binance nine_and_twelve, THEN conjunct2, THEN mp, OF pre]
  obtain v where v: "calculateFinalPrice zero_binance nine_and_twelve = Inr v"
    by blast
  have "calculateFinalPrice zero_binance nine_and_twelve = Inr (Fin 11)"
    by code_simp
  moreover have "map weight (applyWeights zero_binance nine_and_twelve) = [Fin 1, Fin 2]"
    by code_simp
  ultimately show ?thesis using v by simp
qed

text \<open>
  The claim as written fails for a negative weight. Binance is configured with the weight
  -1 and MEXC has no entry; both providers return a valid price in the first round, the
  attached weights are -1 and 1, and the calculator throws for a zero total. The loop
  catches the error, runs its three rounds in the same way, and ends with its own error.
\<close>

theorem negative_weight_reaches_zero_total:
  "map_option cfg_weight (providersConfig negative_binance ''binance'') = Some (Fin (- 1))
   \<and> filter success (fetchPricesWithTimeout demo_toString negative_binance never_late 1)
       = nine_and_twelve
   \<and> map weight (applyWeights negative_binance nine_and_twelve) = [Fin (- 1), Fin 1]
   \<and> calculateFinalPrice negative_binance nine_and_twelve
       = Inl \<lparr>ctor_name = ''Error'', err_message = ''Total weight cannot be zero''\<rparr>
   \<and> fst (getAggregatedHivePrice demo_toString negative_binance never_late)
       = Inl \<lparr>ctor_name = ''Error'',
              err_message = ''Failed to obtain HIVE price after 3 attempts. All exchanges failed or timed out.''\<rparr>"
  by code_simp

section \<open>The failover wrapper\<close>

lemma rotated_0: "ready w \<Longrightarrow> rotated w 0 = w"
  by (simp add: rotated_def ready_def)

lemma ready_rotated: "ready w \<Longrightarrow> ready (rotated w j)"
  by (simp add: rotated_def ready_def)

lemma rotated_rotated: "ready w \<Longrightarrow> rotated (rotated w (Suc 0)) j = rotated w (Suc j)"
  by (simp add: rotated_def ready_def mod_add_left_eq)

lemma rotated_fields:
  "maxRetries (rotated w j) = maxRetries w"
  "nodes (rotated w j) = nodes w"
  "baseRetryDelay (rotated w j) = baseRetryDelay w"
  "maxRetryDelay (rotated w j) = maxRetryDelay w"
  "currentNodeIndex (rotated w j) = (currentNodeIndex w + j) mod length (nodes w)"
  by (simp_all add: rotated_def)

lemma switch_ready:
  "ready w \<Longrightarrow> switchToNextNode w =
     (None, rotated w 1,
      [Switch (js_index (nodes w) (currentNodeIndex w))
              (js_index (nodes w) ((currentNodeIndex w + 1) mod length (nodes w)))])"
  by (simp add: switchToNextNode_def rotated_def ready_def Let_def)

lemma loop_success_now:
  "attempt < maxRetries w \<Longrightarrow> operation attempt (chain w) = Inr v \<Longrightarrow>
     failover_loop operation rand w attempt prev
       = (Inr v, w, [Exec attempt (js_index (nodes w) (currentNodeIndex w))])"
  by (subst failover_loop.simps) (simp add: Let_def)

lemma loop_nonrecoverable_now:
  "attempt < maxRetries w \<Longrightarrow> operation attempt (chain w) = Inl err \<Longrightarrow>
   \<not> isRecoverableChainError err \<Longrightarrow>
     failover_loop operation rand w attempt prev
       = (Inl err, w, [Exec attempt (js_index (nodes w) (currentNodeIndex w))])"
  by (subst failover_loop.simps) (simp add: Let_def)

lemma loop_recoverable_step:
  assumes "ready w" "attempt + 1 < maxRetries w" "operation attempt (chain w) = Inl err"
    "isRecoverableChainError err"
  shows "failover_loop operation rand w attempt prev =
     (fst (failover_loop operation rand (rotated w 1) (attempt + 1) (Some err)),
      fst (snd (failover_loop operation rand (rotated w 1) (attempt + 1) (Some err))),
      Exec attempt (js_index (nodes w) (currentNodeIndex w))
      # Switch (js_index (nodes w) (currentNodeIndex w))
               (js_index (nodes w) ((currentNodeIndex w + 1) mod length (nodes w)))
      # Wait (min (baseRetryDelay w * 2 ^ (attempt + 1) + rand attempt * 100) (maxRetryDelay w))
      # snd (snd (failover_loop operation rand (rotated w 1) (attempt + 1) (Some err))))"
  using assms
  by (subst failover_loop.simps) (simp add: Let_def switch_ready rotated_fields)

lemma loop_after_failures:
  assumes "ready w" "a + k < maxRetries w"
    "\<forall>j < k. \<exists>e. operation (a + j) (chain (rotated w j)) = Inl e \<and> isRecoverableChainError e"
    "\<And>p. failover_loop operation rand (rotated w k) (a + k) p = (r, w', [ev])"
  shows "fst (failover_loop operation rand w a prev) = r
     \<and> fst (snd (failover_loop operation rand w a prev)) = w'
     \<and> length (filter is_exec (snd (snd (failover_loop operation rand w a prev))))
         = k + length (filter is_exec [ev])
     \<and> length (filter is_wait (snd (snd (failover_loop operation rand w a prev))))
         = k + length (filter is_wait [ev])"
  using assms
proof (induction k arbitrary: w a prev)
  case 0
  then show ?case by (simp add: rotated_0)
next
  case (Suc k)
  from Suc.prems(3) obtain e where
    e: "operation a (chain w) = Inl e" "isRecoverableChainError e"
    using rotated_0 [OF Suc.prems(1)] by force
  have more: "a + 1 < maxRetries w" using Suc.prems(2) by simp
  note step = loop_recoverable_step [where w = w and attempt = a and operation = operation
      and err = e and rand = rand and prev = prev, OF Suc.prems(1) more e]
  have r1: "ready (rotated w 1)" using Suc.prems(1) by (rule ready_rotated)
  have b1: "(a + 1) + k < maxRetries (rotated w 1)"
    using Suc.prems(2) by (simp add: rotated_fields)
  have f1: "\<forall>j < k. \<exists>e. operation ((a + 1) + j) (chain (rotated (rotated w 1) j)) = Inl e
                        \<and> isRecoverableChainError e"
  proof (intro allI impI)
    fix j assume "j < k"
    then have "Suc j < Suc k" by simp
    with Suc.prems(3) have "\<exists>e. operation (a + Suc j) (chain (rotated w (Suc j))) = Inl e
                                \<and> isRecoverableChainError e" by blast
    then show "\<exists>e. operation ((a + 1) + j) (chain (rotated (rotated w 1) j)) = Inl e
                   \<and> isRecoverableChainError e"
      by (simp add: rotated_rotated [OF Suc.prems(1)])
  qed
  have l1: "failover_loop operation rand (rotated (rotated w 1) k) ((a + 1) + k) p = (r, w', [ev])"
    for p
    using Suc.prems(4) [of p] by (simp add: rotated_rotated [OF Suc.prems(1)])
  note ih = Suc.IH [OF r1 b1 f1 l1, of "Some e"]
  show ?case
    using ih by (simp add: step)
qed


lemma exec_after_failures:
  assumes "ready w" "k < maxRetries w"
    "\<forall>j < k. \<exists>e. operation j (chain (rotated w j)) = Inl e \<and> isRecoverableChainError e"
    "\<And>p. failover_loop operation rand (rotated w k) k p = (r, w', [ev])"
  shows "fst (executeWithFailover operation rand w) = r
     \<and> fst (snd (executeWithFailover operation rand w)) = w'
     \<and> length (filter is_exec (snd (snd (executeWithFailover operation rand w))))
         = k + length (filter is_exec [ev])
     \<and> length (filter is_wait (snd (snd (executeWithFailover operation rand w))))
         = k + length (filter is_wait [ev])"
proof -
  have c: "chain w \<noteq> None" using assms(1) by (simp add: ready_def)
  have e: "executeWithFailover operation rand w = failover_loop operation rand w 0 None"
    using c by (auto simp: executeWithFailover_def split: option.splits)
  from loop_after_failures [where a = 0 and k = k and w = w and operation = operation
        and rand = rand and r = r and w' = w' and ev = ev and prev = None]
    assms
  show ?thesis by (simp add: e)
qed

text \<open>
  C5. In the attempt loop a call that succeeds ends the loop at once and leaves the
  wrapper, its current index included, as it was. A call that fails with a recoverable
  error while attempts remain moves the index to \<open>(index + 1) mod length nodes\<close>, points
  the chain object at that node, sleeps and goes on. So after \<open>k\<close> recoverable failures
  followed by a success \<open>execute\<close> has made \<open>k + 1\<close> calls and leaves the index \<open>k\<close> places
  further round the list. With the nodes A, B, C, the index at A and a budget of at least
  3, an operation that fails recoverably on A and on B and succeeds on C is called three
  times, and the wrapper is left at C.
\<close>

theorem failover_sticky_rotation:
  "(\<forall>v. attempt < maxRetries w \<and> operation attempt (chain w) = Inr v \<longrightarrow>
        failover_loop operation rand w attempt prev
          = (Inr v, w, [Exec attempt (js_index (nodes w) (currentNodeIndex w))]))
   \<and> (\<forall>err. ready w \<and> attempt + 1 < maxRetries w \<and> operation attempt (chain w) = Inl err
            \<and> isRecoverableChainError err \<longrightarrow>
        currentNodeIndex (fst (snd (switchToNextNode w)))
          = (currentNodeIndex w + 1) mod length (nodes w)
        \<and> fst (snd (switchToNextNode w)) = rotated w 1
        \<and> failover_loop operation rand w attempt prev =
          (fst (failover_loop operation rand (rotated w 1) (attempt + 1) (Some err)),
           fst (snd (failover_loop operation rand (rotated w 1) (attempt + 1) (Some err))),
           Exec attempt (js_index (nodes w) (currentNodeIndex w))
           # Switch (js_index (nodes w) (currentNodeIndex w))
                    (js_index (nodes w) ((currentNodeIndex w + 1) mod length (nodes w)))
           # Wait (min (baseRetryDelay w * 2 ^ (attempt + 1) + rand attempt * 100)
                       (maxRetryDelay w))
           # snd (snd (failover_loop operation rand (rotated w 1) (attempt + 1) (Some err)))))
   \<and> (\<forall>k v. ready w \<and> k < maxRetries w
            \<and> (\<forall>j < k. \<exists>e. operation j (chain (rotated w j)) = Inl e \<and> isRecoverableChainError e)
            \<and> operation k (chain (rotated w k)) = Inr v \<longrightarrow>
        fst (executeWithFailover operation rand w) = Inr v
        \<and> fst (snd (executeWithFailover operation rand w)) = rotated w k
        \<and> length (filter is_exec (snd (snd (executeWithFailover operation rand w)))) = k + 1
        \<and> length (filter is_wait (snd (snd (executeWithFailover operation rand w)))) = k)
   \<and> (\<forall>A B C e0 e1 v.
          nodes w = [A, B, C] \<and> currentNodeIndex w = 0 \<and> chain w = Some (HiveChain (Some A))
          \<and> 3 \<le> maxRetries w
          \<and> operation 0 (Some (HiveChain (Some A))) = Inl e0 \<and> isRecoverableChainError e0
          \<and> operation 1 (Some (HiveChain (Some B))) = Inl e1 \<and> isRecoverableChainError e1
          \<and> operation 2 (Some (HiveChain (Some C))) = Inr v \<longrightarrow>
        fst (executeWithFailover operation rand w) = Inr v
        \<and> length (filter is_exec (snd (snd (executeWithFailover operation rand w)))) = 3
        \<and> currentNodeIndex (fst (snd (executeWithFailover operation rand w))) = 2
        \<and> chain (fst (snd (executeWithFailover operation rand w))) = Some (HiveChain (Some C)))"
proof -
  have sticky: "failover_loop operation rand w attempt prev
          = (Inr v, w, [Exec attempt (js_index (nodes w) (currentNodeIndex w))])"
    if "attempt < maxRetries w \<and> operation attempt (chain w) = Inr v" for v
    using that by (simp add: loop_success_now)
  have step: "currentNodeIndex (fst (snd (switchToNextNode w)))
          = (currentNodeIndex w + 1) mod length (nodes w)
        \<and> fst (snd (switchToNextNode w)) = rotated w 1
        \<and> failover_loop operation rand w attempt prev =
          (fst (failover_loop operation rand (rotated w 1) (attempt + 1) (Some err)),
           fst (snd (failover_loop operation rand (rotated w 1) (attempt + 1) (Some err))),
           Exec attempt (js_index (nodes w) (currentNodeIndex w))
           # Switch (js_index (nodes w) (currentNodeIndex w))
                    (js_index (nodes w) ((currentNodeIndex w + 1) mod length (nodes w)))
           # Wait (min (baseRetryDelay w * 2 ^ (attempt + 1) + rand attempt * 100)
                       (maxRetryDelay w))
           # snd (snd (failover_loop operation rand (rotated w 1) (attempt + 1) (Some err))))"
    if h: "ready w \<and> attempt + 1 < maxRetries w \<and> operation attempt (chain w) = Inl err
            \<and> isRecoverableChainError err" for err
  proof -
    from h have r: "ready w" and m: "attempt + 1 < maxRetries w"
      and o: "operation attempt (chain w) = Inl err" and e: "isRecoverableChainError err"
      by simp_all
    note l = loop_recoverable_step [where w = w and attempt = attempt and operation = operation
        and err = err and rand = rand and prev = prev, OF r m o e]
    have s: "fst (snd (switchToNextNode w)) = rotated w 1"
      using r by (simp add: switch_ready)
    have i: "currentNodeIndex (rotated w 1) = (currentNodeIndex w + 1) mod length (nodes w)"
      by (simp add: rotated_fields)
    from l s i show ?thesis by simp
  qed
  have general: "fst (executeWithFailover operation rand w) = Inr v
        \<and> fst (snd (executeWithFailover operation rand w)) = rotated w k
        \<and> length (filter is_exec (snd (snd (executeWithFailover operation rand w)))) = k + 1
        \<and> length (filter is_wait (snd (snd (executeWithFailover operation rand w)))) = k"
    if h: "ready w \<and> k < maxRetries w
            \<and> (\<forall>j < k. \<exists>e. operation j (chain (rotated w j)) = Inl e \<and> isRecoverableChainError e)
            \<and> operation k (chain (rotated w k)) = Inr v" for k v
  proof -
    have last: "failover_loop operation rand (rotated w k) k p
          = (Inr v, rotated w k,
             [Exec k (js_index (nodes (rotated w k)) (currentNodeIndex (rotated w k)))])" for p
      using h by (intro loop_success_now) (simp_all add: rotated_fields)
    from exec_after_failures [where w = w and k = k and operation = operation and rand = rand
          and r = "Inr v" and w' = "rotated w k", OF _ _ _ last] h
    show ?thesis by simp
  qed
  have abc: "fst (executeWithFailover operation rand w) = Inr v
        \<and> length (filter is_exec (snd (snd (executeWithFailover operation rand w)))) = 3
        \<and> currentNodeIndex (fst (snd (executeWithFailover operation rand w))) = 2
        \<and> chain (fst (snd (executeWithFailover operation rand w))) = Some (HiveChain (Some C))"
    if h: "nodes w = [A, B, C] \<and> currentNodeIndex w = 0 \<and> chain w = Some (HiveChain (Some A))
          \<and> 3 \<le> maxRetries w
          \<and> operation 0 (Some (HiveChain (Some A))) = Inl e0 \<and> isRecoverableChainError e0
          \<and> operation 1 (Some (HiveChain (Some B))) = Inl e1 \<and> isRecoverableChainError e1
          \<and> operation 2 (Some (HiveChain (Some C))) = Inr v" for A B C e0 e1 v
  proof -
    have r: "ready w" using h by (simp add: ready_def js_index_def)
    have c0: "chain (rotated w 0) = Some (HiveChain (Some A))"
      and c1: "chain (rotated w 1) = Some (HiveChain (Some B))"
      and c2: "chain (rotated w 2) = Some (HiveChain (Some C))"
      using h by (simp_all add: rotated_def js_index_def)
    have fails: "\<forall>j < 2. \<exists>e. operation j (chain (rotated w j)) = Inl e \<and> isRecoverableChainError e"
    proof (intro allI impI)
      fix j :: nat assume "j < 2"
      then have "j = 0 \<or> j = 1" by arith
      with h c0 c1 show "\<exists>e. operation j (chain (rotated w j)) = Inl e \<and> isRecoverableChainError e"
        by auto
    qed
    have pre: "ready w \<and> 2 < maxRetries w
            \<and> (\<forall>j < 2. \<exists>e. operation j (chain (rotated w j)) = Inl e \<and> isRecoverableChainError e)
            \<and> operation 2 (chain (rotated w 2)) = Inr v"
      using r h fails c2 by simp
    from general [OF pre] h show ?thesis
      by (simp add: rotated_def js_index_def)
  qed
  from sticky step general abc show ?thesis by blast
qed


theorem failover_sticky_rotation_witness:
  "map_sum id initialize (new_HiveChainWithFailover three_nodes_config) = Inr three_nodes
   \<and> executeWithFailover only_c_answers one_half three_nodes
     = (Inr ''tx-1'',
        three_nodes\<lparr>chain := Some (HiveChain (Some ''https://c.example'')), currentNodeIndex := 2\<rparr>,
        [Exec 0 (Some ''https://a.example''),
         Switch (Some ''https://a.example'') (Some ''https://b.example''), Wait 1050,
         Exec 1 (Some ''https://b.example''),
         Switch (Some ''https://b.example'') (Some ''https://c.example''), Wait 2050,
         Exec 2 (Some ''https://c.example'')])"
proof -
  have built: "map_sum id initialize (new_HiveChainWithFailover three_nodes_config) = Inr three_nodes"
    by (simp add: new_HiveChainWithFailover_def three_nodes_config_def initialize_def
          three_nodes_def js_index_def)
  have pre: "nodes three_nodes = [''https://a.example'', ''https://b.example'', ''https://c.example'']
      \<and> currentNodeIndex three_nodes = 0
      \<and> chain three_nodes = Some (HiveChain (Some ''https://a.example''))
      \<and> 3 \<le> maxRetries three_nodes
      \<and> only_c_answers 0 (Some (HiveChain (Some ''https://a.example''))) = Inl timeout_error
      \<and> isRecoverableChainError timeout_error
      \<and> only_c_answers 1 (Some (HiveChain (Some ''https://b.example''))) = Inl timeout_error
      \<and> isRecoverableChainError timeout_error
      \<and> only_c_answers 2 (Some (HiveChain (Some ''https://c.example''))) = Inr ''tx-1''"
    by (simp add: three_nodes_def only_c_answers_def timeout_error_def isRecoverableChainError_def
          constructor_name_def)
  note w = failover_sticky_rotation [where attempt = 0 and w = three_nodes
             and operation = only_c_answers and rand = one_half and prev = None,
             THEN conjunct2, THEN conjunct2, THEN conjunct2, THEN spec, THEN spec, THEN spec,
             THEN spec, THEN spec, THEN spec, THEN mp, OF pre]
  have run: "executeWithFailover only_c_answers one_half three_nodes
     = (Inr ''tx-1'',
        three_nodes\<lparr>chain := Some (HiveChain (Some ''https://c.example'')), currentNodeIndex := 2\<rparr>,
        [Exec 0 (Some ''https://a.example''),
         Switch (Some ''https://a.example'') (Some ''https://b.example''), Wait 1050,
         Exec 1 (Some ''https://b.example''),
         Switch (Some ''https://b.example'') (Some ''https://c.example''), Wait 2050,
         Exec 2 (Some ''https://c.example'')])"
    by code_simp
  from built w run show ?thesis by simp
qed

text \<open>
  C6. When a call of the operation fails with an error that \<open>isRecoverableChainError\<close>
  rejects, the loop ends at once with that very error: the trace ends with this call, with
  no switch and no sleep after it, and the wrapper, its current index included, is as it
  was before the call. This holds for the first call of \<open>executeWithFailover\<close> and for a
  call made after any number of recoverable failures.
\<close>

theorem failover_nonrecoverable_immediate:
  "(\<forall>err. attempt < maxRetries w \<and> operation attempt (chain w) = Inl err
           \<and> \<not> isRecoverableChainError err \<longrightarrow>
        failover_loop operation rand w attempt prev
          = (Inl err, w, [Exec attempt (js_index (nodes w) (currentNodeIndex w))]))
   \<and> (\<forall>err. chain w \<noteq> None \<and> 0 < maxRetries w \<and> operation 0 (chain w) = Inl err
           \<and> \<not> isRecoverableChainError err \<longrightarrow>
        executeWithFailover operation rand w
          = (Inl err, w, [Exec 0 (js_index (nodes w) (currentNodeIndex w))]))
   \<and> (\<forall>k err. ready w \<and> k < maxRetries w
            \<and> (\<forall>j < k. \<exists>e. operation j (chain (rotated w j)) = Inl e \<and> isRecoverableChainError e)
            \<and> operation k (chain (rotated w k)) = Inl err \<and> \<not> isRecoverableChainError err \<longrightarrow>
        fst (executeWithFailover operation rand w) = Inl err
        \<and> fst (snd (executeWithFailover operation rand w)) = rotated w k
        \<and> length (filter is_exec (snd (snd (executeWithFailover operation rand w)))) = k + 1
        \<and> length (filter is_wait (snd (snd (executeWithFailover operation rand w)))) = k)"
proof -
  have now: "failover_loop operation rand w attempt prev
          = (Inl err, w, [Exec attempt (js_index (nodes w) (currentNodeIndex w))])"
    if "attempt < maxRetries w \<and> operation attempt (chain w) = Inl err
           \<and> \<not> isRecoverableChainError err" for err
    using that by (simp add: loop_nonrecoverable_now)
  have first: "executeWithFailover operation rand w
          = (Inl err, w, [Exec 0 (js_index (nodes w) (currentNodeIndex w))])"
    if h: "chain w \<noteq> None \<and> 0 < maxRetries w \<and> operation 0 (chain w) = Inl err
           \<and> \<not> isRecoverableChainError err" for err
  proof -
    have "executeWithFailover operation rand w = failover_loop operation rand w 0 None"
      using h by (auto simp: executeWithFailover_def split: option.splits)
    with h show ?thesis by (simp add: loop_nonrecoverable_now)
  qed
  have later: "fst (executeWithFailover operation rand w) = Inl err
        \<and> fst (snd (executeWithFailover operation rand w)) = rotated w k
        \<and> length (filter is_exec (snd (snd (executeWithFailover operation rand w)))) = k + 1
        \<and> length (filter is_wait (snd (snd (executeWithFailover operation rand w)))) = k"
    if h: "ready w \<and> k < maxRetries w
            \<and> (\<forall>j < k. \<exists>e. operation j (chain (rotated w j)) = Inl e \<and> isRecoverableChainError e)
            \<and> operation k (chain (rotated w k)) = Inl err \<and> \<not> isRecoverableChainError err"
    for k err
  proof -
    have last: "failover_loop operation rand (rotated w k) k p
          = (Inl err, rotated w k,
             [Exec k (js_index (nodes (rotated w k)) (currentNodeIndex (rotated w k)))])" for p
      using h by (intro loop_nonrecoverable_now) (simp_all add: rotated_fields)
    from exec_after_failures [where w = w and k = k and operation = operation and rand = rand
          and r = "Inl err" and w' = "rotated w k", OF _ _ _ last] h
    show ?thesis by simp
  qed
  from now first later show ?thesis by blast
qed

theorem failover_nonrecoverable_immediate_witness:
  "\<not> isRecoverableChainError bad_request
   \<and> executeWithFailover always_refused one_half three_nodes
     = (Inl bad_request, three_nodes, [Exec 0 (Some ''https://a.example'')])"
proof -
  have nr: "\<not> isRecoverableChainError bad_request"
    by (simp add: bad_request_def isRecoverableChainError_def constructor_name_def)
  have pre: "chain three_nodes \<noteq> None \<and> 0 < maxRetries three_nodes
      \<and> always_refused 0 (chain three_nodes) = Inl bad_request
      \<and> \<not> isRecoverableChainError bad_request"
    using nr by (simp add: three_nodes_def always_refused_def)
  note w = failover_nonrecoverable_immediate [where attempt = 0 and w = three_nodes
             and operation = always_refused and rand = one_half and prev = None,
             THEN conjunct2, THEN conjunct1, THEN spec, THEN mp, OF pre]
  have "js_index (nodes three_nodes) (currentNodeIndex three_nodes) = Some ''https://a.example''"
    by (simp add: three_nodes_def js_index_def)
  with w nr show ?thesis by simp
qed

end
